theory Spec2Isabelle
  imports Main "HOL-Library.Word"
begin

section \<open>Data model\<close>

text \<open>
  The controller is one Arduino sketch: every tab shares the same global variables and a
  single thread runs \<open>loop()\<close> forever. The model is a record of all globals that the
  control logic reads or writes, passed through every function. The LED buffer, the serial
  port and the brightness control have no influence on the control state and are left out.

  \<^item> \<open>unsigned long\<close> timestamps are 32-bit words; \<open>millis() - t\<close> wraps as in C.
  \<^item> \<open>int\<close> and \<open>int8_t\<close> variables are mathematical integers: the values the engines
    store stay far inside the 8 and 16 bit ranges on every run of realistic length, and
    signed overflow has no defined meaning in C++.
  \<^item> \<open>millis()\<close> reads the field \<open>clock\<close>. The environment sets it at the start of each
    pass through \<open>loop()\<close>; a blocking \<open>delay(d)\<close> advances it by \<open>d\<close>.
  \<^item> \<open>random()\<close> reads the field \<open>rng\<close>, the sequence of raw values the generator will
    return next; each call consumes one.
  \<^item> The EEPROM is a map from address to stored value together with the list of writes
    made so far.
  \<^item> \<open>gameOvers\<close> is a ghost counter: it is incremented by each of the three death
    handlers and by nothing else, so that a death on a tick is visible in the state.
\<close>

type_synonym millis = "32 word"

datatype Mode = CLOCK | SETTING | GAME | DODGE_GAME | GAME_SELECT | SET_TIME | SET_DATE | SNAKE_GAME

datatype SettingMenu = MENU_DIFFICULTY | MENU_TIME | MENU_DATE | MENU_EXIT

record DodgeBlock =
  blk_x :: int
  blk_y :: int
  blk_width :: int
  blk_active :: bool

record SnakeSegment =
  seg_x :: int
  seg_y :: int

record DateTime =
  dt_year :: int
  dt_month :: int
  dt_day :: int
  dt_hour :: int
  dt_minute :: int
  dt_second :: int

record pins =
  pinReturn :: bool
  pinUp :: bool
  pinDown :: bool
  pinLeft :: bool
  pinRight :: bool
  pinOk :: bool
  pinGame1 :: bool
  pinGame2 :: bool
  pinGame3 :: bool
  pinOptions :: bool

record sys =
  clock :: millis
  rng :: "nat \<Rightarrow> nat"
  eeprom :: "nat \<Rightarrow> int"
  eepromWrites :: "(nat \<times> int) list"
  rtcAdjusts :: "DateTime list"
  gameOvers :: nat
  currentMode :: Mode
  currentMenu :: SettingMenu
  gameSelectChoice :: int
  settingStep :: int
  tempHour :: int
  tempMinute :: int
  tempYear :: int
  tempMonth :: int
  tempDay :: int
  difficulty :: int
  score :: int
  highScore :: int
  lastMin :: int
  btnTimer :: millis
  btnActive :: bool
  btnMediumFired :: bool
  lastIRActivity :: millis
  lastGameIRActivity :: millis
  irJumpTriggered :: bool
  snakeTurnUp :: bool
  snakeTurnDown :: bool
  snakeTurnLeft :: bool
  snakeTurnRight :: bool
  lastActivity :: millis
  lastPins :: pins
  playerY :: int
  isJumping :: bool
  jumpTimer :: millis
  obstacleX :: int
  obstacleType :: int
  gameSpeed :: int
  frameTimer :: millis
  dodgePlayerX :: int
  dodgeSpeed :: int
  dodgeScore :: int
  dodgeHighScore :: int
  dodgeBlocks :: "DodgeBlock list"
  dodgeFrameTimer :: millis
  dodgeMoveLeft :: bool
  dodgeMoveRight :: bool
  snakeBody :: "SnakeSegment list"
  snakeLength :: int
  snakeDir :: int
  snakePendingDir :: int
  foodX :: int
  foodY :: int
  snakeSpeed :: int
  snakeScore :: int
  snakeHighScore :: int
  snakeMoveTimer :: millis

section \<open>Hardware primitives\<close>

text \<open>\<open>millis() - t\<close>, an \<open>unsigned long\<close>, read as a number.\<close>

definition since :: "sys \<Rightarrow> millis \<Rightarrow> int" where
  "since s t = uint (clock s - t)"

definition delay :: "nat \<Rightarrow> sys \<Rightarrow> sys" where
  "delay d s = s\<lparr>clock := clock s + of_nat d\<rparr>"

text \<open>
  \<open>random(lo, hi)\<close> of the Arduino core: \<open>lo\<close> when the range is empty, otherwise
  \<open>lo + raw % (hi - lo)\<close> for the next raw value of the generator.
\<close>

definition random_val :: "int \<Rightarrow> int \<Rightarrow> sys \<Rightarrow> int" where
  "random_val lo hi s = (if hi \<le> lo then lo else lo + int (rng s 0) mod (hi - lo))"

definition rng_advance :: "int \<Rightarrow> int \<Rightarrow> sys \<Rightarrow> sys" where
  "rng_advance lo hi s = (if hi \<le> lo then s else s\<lparr>rng := (\<lambda>i. rng s (Suc i))\<rparr>)"

definition eeprom_put :: "nat \<Rightarrow> int \<Rightarrow> sys \<Rightarrow> sys" where
  "eeprom_put addr v s =
     s\<lparr>eeprom := (eeprom s)(addr := v), eepromWrites := eepromWrites s @ [(addr, v)]\<rparr>"

section \<open>Dodge engine (dodge\_game.ino)\<close>

definition EEPROM_DODGE_HIGHSCORE_ADDR :: nat where [simp]: "EEPROM_DODGE_HIGHSCORE_ADDR = 456"
definition DODGE_COLS :: int where [simp]: "DODGE_COLS = 15"
definition DODGE_ROWS :: int where [simp]: "DODGE_ROWS = 10"
definition DODGE_PLAYER_Y :: int where [simp]: "DODGE_PLAYER_Y = 9"
definition DODGE_PLAYER_START_X :: int where [simp]: "DODGE_PLAYER_START_X = 7"
definition DODGE_INITIAL_SPEED :: int where [simp]: "DODGE_INITIAL_SPEED = 160"
definition DODGE_MIN_SPEED :: int where [simp]: "DODGE_MIN_SPEED = 35"
definition DODGE_SPEED_DECREASE :: int where [simp]: "DODGE_SPEED_DECREASE = 2"
definition DODGE_DEATH_FLASH :: nat where [simp]: "DODGE_DEATH_FLASH = 2500"
definition DODGE_TIMEOUT_MS :: int where [simp]: "DODGE_TIMEOUT_MS = 15000"
definition DODGE_MAX_BLOCKS :: nat where [simp]: "DODGE_MAX_BLOCKS = 2"

definition saveDodgeHighScore :: "sys \<Rightarrow> sys" where
  "saveDodgeHighScore s =
     (if dodgeScore s > dodgeHighScore s
      then eeprom_put EEPROM_DODGE_HIGHSCORE_ADDR (dodgeScore s) (s\<lparr>dodgeHighScore := dodgeScore s\<rparr>)
      else s)"

definition spawnBlock :: "nat \<Rightarrow> sys \<Rightarrow> sys" where
  "spawnBlock slot s =
     (let w = random_val 1 4 s;
          s1 = rng_advance 1 4 s;
          maxX = DODGE_COLS - w;
          x0 = random_val 0 (maxX + 1) s1;
          s2 = rng_advance 0 (maxX + 1) s1
      in s2\<lparr>dodgeBlocks := (dodgeBlocks s2)
              [slot := \<lparr>blk_x = x0, blk_y = 0, blk_width = w, blk_active = True\<rparr>]\<rparr>)"

definition resetDodgeGame :: "sys \<Rightarrow> sys" where
  "resetDodgeGame s =
     (let s1 = s\<lparr>dodgePlayerX := DODGE_PLAYER_START_X,
                 dodgeSpeed := DODGE_INITIAL_SPEED,
                 dodgeScore := 0,
                 dodgeMoveLeft := False,
                 dodgeMoveRight := False,
                 dodgeBlocks := map (\<lambda>b. b\<lparr>blk_active := False\<rparr>) (dodgeBlocks s)\<rparr>;
          s2 = spawnBlock 0 s1
      in s2\<lparr>dodgeFrameTimer := clock s2, lastGameIRActivity := clock s2\<rparr>)"

definition blockHitsPlayer :: "int \<Rightarrow> int \<Rightarrow> sys \<Rightarrow> bool" where
  "blockHitsPlayer bx bw s = (dodgePlayerX s \<ge> bx \<and> dodgePlayerX s < bx + bw)"

definition handleDodgeGameOver :: "sys \<Rightarrow> sys" where
  "handleDodgeGameOver s =
     (let s1 = saveDodgeHighScore (s\<lparr>gameOvers := gameOvers s + 1\<rparr>);
          s2 = delay DODGE_DEATH_FLASH (delay 300 s1);
          s3 = resetDodgeGame s2
      in s3\<lparr>lastGameIRActivity := clock s3\<rparr>)"

text \<open>The player-movement block of \<open>runDodgeGame\<close>.\<close>

definition dodgeMovePlayer :: "sys \<Rightarrow> sys" where
  "dodgeMovePlayer s =
     (let s1 = (if dodgeMoveLeft s
                then s\<lparr>dodgePlayerX := (if dodgePlayerX s > 0 then dodgePlayerX s - 1 else dodgePlayerX s),
                       dodgeMoveLeft := False,
                       lastGameIRActivity := clock s\<rparr>
                else s)
      in if dodgeMoveRight s1
         then s1\<lparr>dodgePlayerX := (if dodgePlayerX s1 < DODGE_COLS - 1 then dodgePlayerX s1 + 1 else dodgePlayerX s1),
                 dodgeMoveRight := False,
                 lastGameIRActivity := clock s1\<rparr>
         else s1)"

text \<open>The first loop of the frame step: count the active slots.\<close>

definition dodgeCountActive :: "sys \<Rightarrow> int" where
  "dodgeCountActive s =
     fold (\<lambda>i n. if blk_active (dodgeBlocks s ! i) then n + 1 else n) [0..<DODGE_MAX_BLOCKS] 0"

text \<open>One iteration of the advance loop, on slot \<open>i\<close>; the local \<open>activeCount\<close> is carried along.\<close>

definition dodgeAdvanceBlock :: "nat \<Rightarrow> sys \<times> int \<Rightarrow> sys \<times> int" where
  "dodgeAdvanceBlock i = (\<lambda>(s, activeCount).
     let b = dodgeBlocks s ! i in
     if \<not> blk_active b then (s, activeCount)
     else
       let b1 = b\<lparr>blk_y := blk_y b + 1\<rparr> in
       if blk_y b1 > DODGE_PLAYER_Y
       then (s\<lparr>dodgeBlocks := (dodgeBlocks s)[i := b1\<lparr>blk_active := False\<rparr>],
               dodgeScore := dodgeScore s + 1,
               dodgeSpeed := (if dodgeSpeed s > DODGE_MIN_SPEED
                              then dodgeSpeed s - DODGE_SPEED_DECREASE else dodgeSpeed s)\<rparr>,
             activeCount - 1)
       else (s\<lparr>dodgeBlocks := (dodgeBlocks s)[i := b1]\<rparr>, activeCount))"

definition dodgeAdvance :: "sys \<Rightarrow> sys \<times> int" where
  "dodgeAdvance s = fold dodgeAdvanceBlock [0..<DODGE_MAX_BLOCKS] (s, dodgeCountActive s)"

text \<open>The local \<open>targetBlocks\<close>; the draw is made only in the middle band.\<close>

definition dodgeTargetBlocks :: "sys \<Rightarrow> int" where
  "dodgeTargetBlocks s =
     (if dodgeScore s \<ge> 15 then 2
      else if dodgeScore s \<ge> 5 then (if random_val 0 2 s = 0 then 2 else 1)
      else 1)"

definition dodgeTargetDraw :: "sys \<Rightarrow> sys" where
  "dodgeTargetDraw s =
     (if dodgeScore s \<ge> 15 then s
      else if dodgeScore s \<ge> 5 then rng_advance 0 2 s
      else s)"

text \<open>The fill loop: \<open>for (i = 0; i < DODGE_MAX_BLOCKS && activeCount < targetBlocks; i++)\<close>.\<close>

function dodgeFill :: "nat \<Rightarrow> int \<Rightarrow> int \<Rightarrow> sys \<Rightarrow> sys" where
  "dodgeFill i activeCount targetBlocks s =
     (if i < DODGE_MAX_BLOCKS \<and> activeCount < targetBlocks
      then (if \<not> blk_active (dodgeBlocks s ! i)
            then dodgeFill (i + 1) (activeCount + 1) targetBlocks (spawnBlock i s)
            else dodgeFill (i + 1) activeCount targetBlocks s)
      else s)"
  by pat_completeness auto
termination
  by (relation "measure (\<lambda>(i, a, t, s). DODGE_MAX_BLOCKS - i)") auto

declare dodgeFill.simps [simp del]

text \<open>The body of \<open>if (millis() - dodgeFrameTimer > (unsigned long)dodgeSpeed)\<close>.\<close>

definition dodgeFrame :: "sys \<Rightarrow> sys" where
  "dodgeFrame s =
     (let s0 = s\<lparr>dodgeFrameTimer := clock s\<rparr>;
          (s1, activeCount) = dodgeAdvance s0;
          targetBlocks = dodgeTargetBlocks s1;
          s2 = dodgeTargetDraw s1
      in dodgeFill 0 activeCount targetBlocks s2)"

definition dodgeFrameDue :: "sys \<Rightarrow> bool" where
  "dodgeFrameDue s = (since s (dodgeFrameTimer s) > dodgeSpeed s)"

text \<open>The collision loop: does some active slot satisfy the test that calls the death handler?\<close>

definition dodgeBlockCollides :: "sys \<Rightarrow> nat \<Rightarrow> bool" where
  "dodgeBlockCollides s i =
     (let b = dodgeBlocks s ! i
      in blk_active b \<and> blk_y b \<ge> DODGE_PLAYER_Y - 1 \<and> blockHitsPlayer (blk_x b) (blk_width b) s)"

definition dodgeCollides :: "sys \<Rightarrow> bool" where
  "dodgeCollides s = list_ex (dodgeBlockCollides s) [0..<DODGE_MAX_BLOCKS]"

definition dodgeTimedOut :: "sys \<Rightarrow> bool" where
  "dodgeTimedOut s = (since s (lastGameIRActivity s) > DODGE_TIMEOUT_MS)"

text \<open>The state at the collision check of this tick (movement and frame step done).\<close>

definition dodgeStep :: "sys \<Rightarrow> sys" where
  "dodgeStep s =
     (let s1 = dodgeMovePlayer s
      in if dodgeFrameDue s1 then dodgeFrame s1 else s1)"

definition runDodgeGame :: "sys \<Rightarrow> sys" where
  "runDodgeGame s =
     (if dodgeTimedOut s then s\<lparr>currentMode := CLOCK, lastMin := - 1\<rparr>
      else
        let s2 = dodgeStep s
        in if dodgeCollides s2 then handleDodgeGameOver s2 else s2)"

section \<open>Dino engine (game.ino)\<close>

definition EEPROM_DIFFICULTY_ADDR :: nat where [simp]: "EEPROM_DIFFICULTY_ADDR = 0"
definition EEPROM_HIGHSCORE_ADDR :: nat where [simp]: "EEPROM_HIGHSCORE_ADDR = 1"
definition JUMP_DURATION_MS :: int where [simp]: "JUMP_DURATION_MS = 450"
definition INITIAL_GAME_SPEED :: int where [simp]: "INITIAL_GAME_SPEED = 100"
definition MIN_GAME_SPEED :: int where [simp]: "MIN_GAME_SPEED = 40"
definition SPEED_DECREASE :: int where [simp]: "SPEED_DECREASE = 1"
definition OBSTACLE_START_X :: int where [simp]: "OBSTACLE_START_X = 14"
definition PLAYER_X :: int where [simp]: "PLAYER_X = 1"
definition PLAYER_GROUND_Y :: int where [simp]: "PLAYER_GROUND_Y = 3"
definition PLAYER_AIR_Y :: int where [simp]: "PLAYER_AIR_Y = 0"
definition GROUND_OBSTACLE :: int where [simp]: "GROUND_OBSTACLE = 0"
definition AIR_OBSTACLE :: int where [simp]: "AIR_OBSTACLE = 1"
definition COLLISION_FLASH_MS :: nat where [simp]: "COLLISION_FLASH_MS = 3000"

definition saveHighScore :: "sys \<Rightarrow> sys" where
  "saveHighScore s =
     (if score s > highScore s
      then eeprom_put EEPROM_HIGHSCORE_ADDR (score s) (s\<lparr>highScore := score s\<rparr>)
      else s)"

definition handleGameOver :: "sys \<Rightarrow> sys" where
  "handleGameOver s =
     (let s1 = saveHighScore (s\<lparr>gameOvers := gameOvers s + 1\<rparr>);
          s2 = delay COLLISION_FLASH_MS s1
      in s2\<lparr>score := 0,
             gameSpeed := INITIAL_GAME_SPEED,
             obstacleX := OBSTACLE_START_X,
             obstacleType := GROUND_OBSTACLE,
             playerY := PLAYER_GROUND_Y,
             isJumping := False,
             lastIRActivity := clock s2\<rparr>)"

text \<open>The three jump statements at the top of \<open>runDinoGame\<close>.\<close>

definition dinoHandleJump :: "sys \<Rightarrow> sys" where
  "dinoHandleJump s =
     (let s1 = (if irJumpTriggered s \<and> \<not> isJumping s
                then s\<lparr>isJumping := True, jumpTimer := clock s, irJumpTriggered := False\<rparr>
                else s);
          s2 = (if isJumping s1 \<and> since s1 (jumpTimer s1) > JUMP_DURATION_MS
                then s1\<lparr>isJumping := False\<rparr>
                else s1)
      in s2\<lparr>playerY := (if isJumping s2 then PLAYER_AIR_Y else PLAYER_GROUND_Y)\<rparr>)"

text \<open>The frame-gated obstacle move and respawn.\<close>

definition dinoMoveObstacle :: "sys \<Rightarrow> sys" where
  "dinoMoveObstacle s =
     (if since s (frameTimer s) > gameSpeed s
      then
        let s1 = s\<lparr>obstacleX := obstacleX s - 1\<rparr>;
            s2 = (if obstacleX s1 < 0
                  then (rng_advance 0 2 s1)
                         \<lparr>obstacleX := OBSTACLE_START_X,
                          obstacleType := random_val 0 2 s1,
                          score := score s1 + 1,
                          gameSpeed := (if gameSpeed s1 > MIN_GAME_SPEED
                                        then gameSpeed s1 - SPEED_DECREASE else gameSpeed s1)\<rparr>
                  else s1)
        in s2\<lparr>frameTimer := clock s2\<rparr>
      else s)"

text \<open>The value of the local \<open>collision\<close> (false when the columns differ).\<close>

definition dinoCollision :: "sys \<Rightarrow> bool" where
  "dinoCollision s =
     (if obstacleX s = PLAYER_X
      then (if obstacleType s = GROUND_OBSTACLE \<and> \<not> isJumping s then True
            else if obstacleType s = AIR_OBSTACLE \<and> isJumping s then True
            else False)
      else False)"

text \<open>The state at the collision check of this tick.\<close>

definition dinoStep :: "sys \<Rightarrow> sys" where
  "dinoStep s = dinoMoveObstacle (dinoHandleJump s)"

definition runDinoGame :: "sys \<Rightarrow> sys" where
  "runDinoGame s =
     (let s1 = dinoStep s
      in if dinoCollision s1 then handleGameOver s1 else s1)"

section \<open>Snake engine (snake\_game.ino)\<close>

definition EEPROM_SNAKE_HIGHSCORE_ADDR :: nat where [simp]: "EEPROM_SNAKE_HIGHSCORE_ADDR = 460"
definition SNAKE_COLS :: int where [simp]: "SNAKE_COLS = 15"
definition SNAKE_ROWS :: int where [simp]: "SNAKE_ROWS = 10"
definition SNAKE_MAX_LENGTH :: int where [simp]: "SNAKE_MAX_LENGTH = 24"
definition SNAKE_INITIAL_SPEED :: int where [simp]: "SNAKE_INITIAL_SPEED = 300"
definition SNAKE_MIN_SPEED :: int where [simp]: "SNAKE_MIN_SPEED = 80"
definition SNAKE_SPEED_STEP :: int where [simp]: "SNAKE_SPEED_STEP = 3"
definition SNAKE_DEATH_FLASH :: nat where [simp]: "SNAKE_DEATH_FLASH = 3000"
definition SNAKE_TIMEOUT_MS :: int where [simp]: "SNAKE_TIMEOUT_MS = 20000"
definition SNAKE_FOOD_TRIES :: nat where [simp]: "SNAKE_FOOD_TRIES = 200"
definition DIR_UP :: int where [simp]: "DIR_UP = 0"
definition DIR_RIGHT :: int where [simp]: "DIR_RIGHT = 1"
definition DIR_DOWN :: int where [simp]: "DIR_DOWN = 2"
definition DIR_LEFT :: int where [simp]: "DIR_LEFT = 3"

definition saveSnakeHighScore :: "sys \<Rightarrow> sys" where
  "saveSnakeHighScore s =
     (if snakeScore s > snakeHighScore s
      then eeprom_put EEPROM_SNAKE_HIGHSCORE_ADDR (snakeScore s) (s\<lparr>snakeHighScore := snakeScore s\<rparr>)
      else s)"

text \<open>Is the cell one of the first \<open>n\<close> body segments? (The scans of \<open>spawnFood\<close> and of the
  self-collision test, which differ in \<open>n\<close> only.)\<close>

definition snakeCellIn :: "nat \<Rightarrow> int \<Rightarrow> int \<Rightarrow> sys \<Rightarrow> bool" where
  "snakeCellIn n cx cy s =
     list_ex (\<lambda>i. seg_x (snakeBody s ! i) = cx \<and> seg_y (snakeBody s ! i) = cy) [0..<n]"

text \<open>The \<open>do ... while (tries < 200)\<close> loop of \<open>spawnFood\<close>; it returns the locals
  \<open>fx\<close>, \<open>fy\<close> as they are when the loop is left.\<close>

function spawnFoodLoop :: "nat \<Rightarrow> sys \<Rightarrow> int \<times> int \<times> sys" where
  "spawnFoodLoop tries s =
     (let fx = random_val 0 SNAKE_COLS s;
          s1 = rng_advance 0 SNAKE_COLS s;
          fy = random_val 0 SNAKE_ROWS s1;
          s2 = rng_advance 0 SNAKE_ROWS s1;
          tries1 = tries + 1
      in if \<not> snakeCellIn (nat (snakeLength s2)) fx fy s2 then (fx, fy, s2)
         else if tries1 < SNAKE_FOOD_TRIES then spawnFoodLoop tries1 s2
         else (fx, fy, s2))"
  by pat_completeness auto
termination
  by (relation "measure (\<lambda>(tries, s). SNAKE_FOOD_TRIES - tries)") auto

declare spawnFoodLoop.simps [simp del]

definition spawnFood :: "sys \<Rightarrow> sys" where
  "spawnFood s = (case spawnFoodLoop 0 s of (fx, fy, s1) \<Rightarrow> s1\<lparr>foodX := fx, foodY := fy\<rparr>)"

definition resetSnake :: "sys \<Rightarrow> sys" where
  "resetSnake s =
     spawnFood
       (s\<lparr>snakeLength := 3,
          snakeDir := DIR_RIGHT,
          snakePendingDir := DIR_RIGHT,
          snakeSpeed := SNAKE_INITIAL_SPEED,
          snakeScore := 0,
          snakeMoveTimer := clock s,
          lastGameIRActivity := clock s,
          snakeBody := (snakeBody s)
            [0 := \<lparr>seg_x = 7, seg_y = 5\<rparr>, 1 := \<lparr>seg_x = 6, seg_y = 5\<rparr>, 2 := \<lparr>seg_x = 5, seg_y = 5\<rparr>],
          snakeTurnUp := False,
          snakeTurnDown := False,
          snakeTurnLeft := False,
          snakeTurnRight := False\<rparr>)"

definition handleSnakeDeath :: "sys \<Rightarrow> sys" where
  "handleSnakeDeath s =
     (let s1 = saveSnakeHighScore (s\<lparr>gameOvers := gameOvers s + 1\<rparr>);
          s2 = delay SNAKE_DEATH_FLASH (delay (3 * (200 + 150)) s1);
          s3 = resetSnake s2
      in s3\<lparr>lastGameIRActivity := clock s3\<rparr>)"

text \<open>The four guarded assignments to \<open>snakePendingDir\<close> and the clearing of the flags.\<close>

definition snakeApplyInput :: "sys \<Rightarrow> sys" where
  "snakeApplyInput s =
     (let s1 = (if snakeTurnUp s \<and> snakeDir s \<noteq> DIR_DOWN then s\<lparr>snakePendingDir := DIR_UP\<rparr> else s);
          s2 = (if snakeTurnDown s1 \<and> snakeDir s1 \<noteq> DIR_UP then s1\<lparr>snakePendingDir := DIR_DOWN\<rparr> else s1);
          s3 = (if snakeTurnLeft s2 \<and> snakeDir s2 \<noteq> DIR_RIGHT then s2\<lparr>snakePendingDir := DIR_LEFT\<rparr> else s2);
          s4 = (if snakeTurnRight s3 \<and> snakeDir s3 \<noteq> DIR_LEFT then s3\<lparr>snakePendingDir := DIR_RIGHT\<rparr> else s3)
      in s4\<lparr>snakeTurnUp := False, snakeTurnDown := False, snakeTurnLeft := False, snakeTurnRight := False\<rparr>)"

definition snakeMoveDue :: "sys \<Rightarrow> bool" where
  "snakeMoveDue s = (since s (snakeMoveTimer s) \<ge> snakeSpeed s)"

text \<open>The first two statements of a movement tick: the pending direction becomes the heading.\<close>

definition snakeSetHeading :: "sys \<Rightarrow> sys" where
  "snakeSetHeading s = s\<lparr>snakeMoveTimer := clock s, snakeDir := snakePendingDir s\<rparr>"

definition snakeNewX :: "sys \<Rightarrow> int" where
  "snakeNewX s =
     (let newX = seg_x (snakeBody s ! 0);
          newX = (if snakeDir s = DIR_LEFT then newX - 1 else newX);
          newX = (if snakeDir s = DIR_RIGHT then newX + 1 else newX)
      in newX)"

definition snakeNewY :: "sys \<Rightarrow> int" where
  "snakeNewY s =
     (let newY = seg_y (snakeBody s ! 0);
          newY = (if snakeDir s = DIR_UP then newY - 1 else newY);
          newY = (if snakeDir s = DIR_DOWN then newY + 1 else newY)
      in newY)"

text \<open>The shift loop \<open>for (i = snakeLength - 1; i > 0; i--) snakeBody[i] = snakeBody[i - 1]\<close>,
  started at \<open>i\<close>.\<close>

fun snakeShift :: "nat \<Rightarrow> SnakeSegment list \<Rightarrow> SnakeSegment list" where
  "snakeShift 0 b = b"
| "snakeShift (Suc i) b = snakeShift i (b[Suc i := b ! i])"

text \<open>Growth, shift and new head; then score, speed ramp and new food when the food was eaten.\<close>

definition snakeAdvance :: "int \<Rightarrow> int \<Rightarrow> sys \<Rightarrow> sys" where
  "snakeAdvance newX newY s =
     (let ate = (newX = foodX s \<and> newY = foodY s);
          s1 = (if ate \<and> snakeLength s < SNAKE_MAX_LENGTH
                then s\<lparr>snakeLength := snakeLength s + 1\<rparr> else s);
          s2 = s1\<lparr>snakeBody := (snakeShift (nat (snakeLength s1 - 1)) (snakeBody s1))
                                  [0 := \<lparr>seg_x = newX, seg_y = newY\<rparr>]\<rparr>
      in if ate
         then
           let s3 = s2\<lparr>snakeScore := snakeScore s2 + 1\<rparr>;
               s4 = (if snakeScore s3 mod 5 = 0 \<and> snakeSpeed s3 > SNAKE_MIN_SPEED
                     then (let v = snakeSpeed s3 - SNAKE_SPEED_STEP * 5
                           in s3\<lparr>snakeSpeed := (if v < SNAKE_MIN_SPEED then SNAKE_MIN_SPEED else v)\<rparr>)
                     else s3)
           in spawnFood s4
         else s2)"

definition snakeHitsWall :: "int \<Rightarrow> int \<Rightarrow> bool" where
  "snakeHitsWall newX newY = (newX < 0 \<or> newX \<ge> SNAKE_COLS \<or> newY < 0 \<or> newY \<ge> SNAKE_ROWS)"

text \<open>The body of \<open>if (millis() - snakeMoveTimer >= (unsigned long)snakeSpeed)\<close>.\<close>

definition snakeMove :: "sys \<Rightarrow> sys" where
  "snakeMove s =
     (let s0 = snakeSetHeading s;
          newX = snakeNewX s0;
          newY = snakeNewY s0
      in if snakeHitsWall newX newY then handleSnakeDeath s0
         else if snakeCellIn (nat (snakeLength s0 - 1)) newX newY s0 then handleSnakeDeath s0
         else snakeAdvance newX newY s0)"

definition snakeTimedOut :: "sys \<Rightarrow> bool" where
  "snakeTimedOut s = (since s (lastGameIRActivity s) > SNAKE_TIMEOUT_MS)"

definition runSnakeGame :: "sys \<Rightarrow> sys" where
  "runSnakeGame s =
     (if snakeTimedOut s then s\<lparr>currentMode := CLOCK, lastMin := - 1\<rparr>
      else
        let s1 = snakeApplyInput s
        in if snakeMoveDue s1 then snakeMove s1 else s1)"

section \<open>Mode controller (main sketch and input.ino)\<close>

definition BUTTON_SHORT_PRESS_MS :: int where [simp]: "BUTTON_SHORT_PRESS_MS = 1000"
definition BUTTON_MEDIUM_PRESS_MS :: int where [simp]: "BUTTON_MEDIUM_PRESS_MS = 3000"
definition BUTTON_LONG_PRESS_MS :: int where [simp]: "BUTTON_LONG_PRESS_MS = 5000"
definition GAME_TIMEOUT_MS :: int where [simp]: "GAME_TIMEOUT_MS = 15000"
definition SETTINGS_TIMEOUT_MS :: int where [simp]: "SETTINGS_TIMEOUT_MS = 30000"
definition GAME_SELECT_TIMEOUT_MS :: int where [simp]: "GAME_SELECT_TIMEOUT_MS = 10000"

text \<open>The enum \<open>SettingMenu\<close> as the integer the sketch computes with, and back.\<close>

fun menuIndex :: "SettingMenu \<Rightarrow> int" where
  "menuIndex MENU_DIFFICULTY = 0"
| "menuIndex MENU_TIME = 1"
| "menuIndex MENU_DATE = 2"
| "menuIndex MENU_EXIT = 3"

definition menuOf :: "int \<Rightarrow> SettingMenu" where
  "menuOf n = (if n = 0 then MENU_DIFFICULTY else if n = 1 then MENU_TIME
               else if n = 2 then MENU_DATE else MENU_EXIT)"

definition toClock :: "sys \<Rightarrow> sys" where
  "toClock s = s\<lparr>currentMode := CLOCK, lastMin := - 1\<rparr>"

definition launchGame :: "int \<Rightarrow> sys \<Rightarrow> sys" where
  "launchGame choice s =
     (if choice = 0
      then delay 200
             (s\<lparr>currentMode := GAME,
                score := 0,
                gameSpeed := INITIAL_GAME_SPEED,
                obstacleX := OBSTACLE_START_X,
                playerY := PLAYER_GROUND_Y,
                isJumping := False,
                lastIRActivity := clock s,
                lastGameIRActivity := clock s\<rparr>)
      else if choice = 1
      then delay 200 (resetDodgeGame (s\<lparr>currentMode := DODGE_GAME, lastGameIRActivity := clock s\<rparr>))
      else delay 200 (resetSnake (s\<lparr>currentMode := SNAKE_GAME, lastGameIRActivity := clock s\<rparr>)))"

definition launchSelectedGame :: "sys \<Rightarrow> sys" where
  "launchSelectedGame s = launchGame (gameSelectChoice s) s"

definition incrementTimeField :: "sys \<Rightarrow> sys" where
  "incrementTimeField s =
     (if settingStep s = 0 then s\<lparr>tempHour := (tempHour s + 1) mod 24\<rparr>
      else s\<lparr>tempMinute := (tempMinute s + 1) mod 60\<rparr>)"

definition incrementDateField :: "sys \<Rightarrow> sys" where
  "incrementDateField s =
     (if settingStep s = 0
      then s\<lparr>tempYear := (if tempYear s + 1 > 2099 then 2000 else tempYear s + 1)\<rparr>
      else if settingStep s = 1
      then s\<lparr>tempMonth := (if tempMonth s + 1 > 12 then 1 else tempMonth s + 1)\<rparr>
      else s\<lparr>tempDay := (if tempDay s + 1 > 31 then 1 else tempDay s + 1)\<rparr>)"

text \<open>\<open>rtc.adjust\<close> is recorded in \<open>rtcAdjusts\<close>; the argument \<open>now\<close> is what \<open>rtc.now()\<close> returns.\<close>

definition saveTime :: "DateTime \<Rightarrow> sys \<Rightarrow> sys" where
  "saveTime now s =
     s\<lparr>rtcAdjusts := rtcAdjusts s @
         [\<lparr>dt_year = dt_year now, dt_month = dt_month now, dt_day = dt_day now,
           dt_hour = tempHour s, dt_minute = tempMinute s, dt_second = 0\<rparr>]\<rparr>"

definition saveDate :: "DateTime \<Rightarrow> sys \<Rightarrow> sys" where
  "saveDate now s =
     s\<lparr>rtcAdjusts := rtcAdjusts s @
         [\<lparr>dt_year = tempYear s, dt_month = tempMonth s, dt_day = tempDay s,
           dt_hour = dt_hour now, dt_minute = dt_minute now, dt_second = dt_second now\<rparr>]\<rparr>"

definition selectMenuItem :: "DateTime \<Rightarrow> sys \<Rightarrow> sys" where
  "selectMenuItem now s =
     (case currentMenu s of
        MENU_DIFFICULTY \<Rightarrow>
          (let d = (difficulty s mod 5) + 1
           in eeprom_put EEPROM_DIFFICULTY_ADDR d (s\<lparr>difficulty := d\<rparr>))
      | MENU_TIME \<Rightarrow>
          s\<lparr>currentMode := SET_TIME, settingStep := 0,
            tempHour := dt_hour now, tempMinute := dt_minute now\<rparr>
      | MENU_DATE \<Rightarrow>
          s\<lparr>currentMode := SET_DATE, settingStep := 0,
            tempYear := dt_year now, tempMonth := dt_month now, tempDay := dt_day now\<rparr>
      | MENU_EXIT \<Rightarrow>
          (eeprom_put EEPROM_DIFFICULTY_ADDR (difficulty s) (s\<lparr>currentMode := CLOCK\<rparr>))\<lparr>lastMin := - 1\<rparr>)"

definition handleShortPress :: "sys \<Rightarrow> sys" where
  "handleShortPress s =
     (let s1 = s\<lparr>lastActivity := clock s\<rparr>
      in case currentMode s1 of
           SETTING \<Rightarrow> s1\<lparr>currentMenu := menuOf ((menuIndex (currentMenu s1) + 1) mod 4)\<rparr>
         | SET_TIME \<Rightarrow> incrementTimeField s1
         | SET_DATE \<Rightarrow> incrementDateField s1
         | GAME_SELECT \<Rightarrow> s1\<lparr>gameSelectChoice := (gameSelectChoice s1 + 1) mod 3\<rparr>
         | _ \<Rightarrow> s1)"

definition handleMediumHold :: "sys \<Rightarrow> sys" where
  "handleMediumHold s =
     (if currentMode s = CLOCK
      then s\<lparr>currentMode := SETTING, currentMenu := MENU_DIFFICULTY, lastActivity := clock s\<rparr>
      else s)"

definition handleLongPress :: "DateTime \<Rightarrow> sys \<Rightarrow> sys" where
  "handleLongPress now s =
     (let s1 = s\<lparr>lastActivity := clock s\<rparr>
      in case currentMode s1 of
           SETTING \<Rightarrow> selectMenuItem now s1
         | SET_TIME \<Rightarrow>
             (if settingStep s1 = 0 then s1\<lparr>settingStep := 1\<rparr>
              else toClock (saveTime now s1))
         | SET_DATE \<Rightarrow>
             (if settingStep s1 < 2 then s1\<lparr>settingStep := settingStep s1 + 1\<rparr>
              else toClock (saveDate now s1))
         | GAME_SELECT \<Rightarrow> launchSelectedGame s1
         | _ \<Rightarrow> s1)"

text \<open>\<open>btnPressed\<close> is the level of the push button on this pass.\<close>

definition handleButton :: "bool \<Rightarrow> DateTime \<Rightarrow> sys \<Rightarrow> sys" where
  "handleButton btnPressed now s =
     (let s1 = (if btnPressed \<and> \<not> btnActive s
                then s\<lparr>btnTimer := clock s, btnActive := True, btnMediumFired := False\<rparr>
                else s);
          s2 = (if btnActive s1 \<and> btnPressed
                then (if \<not> btnMediumFired s1 \<and> since s1 (btnTimer s1) \<ge> BUTTON_MEDIUM_PRESS_MS
                      then handleMediumHold (s1\<lparr>btnMediumFired := True\<rparr>)
                      else s1)
                else s1)
      in if btnActive s2 \<and> \<not> btnPressed
         then
           let dur = since s2 (btnTimer s2);
               s3 = s2\<lparr>btnActive := False\<rparr>
           in if btnMediumFired s3
              then (if dur \<ge> BUTTON_LONG_PRESS_MS \<and>
                       (currentMode s3 = SETTING \<or> currentMode s3 = SET_TIME \<or> currentMode s3 = SET_DATE)
                    then handleLongPress now s3
                    else s3)
              else if dur < BUTTON_SHORT_PRESS_MS then handleShortPress s3
              else s3
         else s2)"

text \<open>The mode dispatch of \<open>handleIRInput\<close>, given the ten edges.\<close>

definition irDispatch :: "pins \<Rightarrow> DateTime \<Rightarrow> sys \<Rightarrow> sys" where
  "irDispatch edge now s =
     (case currentMode s of
        CLOCK \<Rightarrow>
          (if pinGame1 edge then launchGame 0 s
           else if pinGame2 edge then launchGame 1 s
           else if pinGame3 edge then launchGame 2 s
           else if pinOptions edge
           then s\<lparr>currentMode := SETTING, currentMenu := MENU_DIFFICULTY, lastActivity := clock s\<rparr>
           else s)
      | GAME_SELECT \<Rightarrow>
          (let s1 = (if pinReturn edge then toClock s
                     else if pinUp edge then s\<lparr>gameSelectChoice := (gameSelectChoice s + 2) mod 3\<rparr>
                     else if pinDown edge then s\<lparr>gameSelectChoice := (gameSelectChoice s + 1) mod 3\<rparr>
                     else if pinOk edge then launchSelectedGame s
                     else s)
           in if since s1 (lastIRActivity s1) > GAME_SELECT_TIMEOUT_MS then toClock s1 else s1)
      | GAME \<Rightarrow>
          (if pinReturn edge then toClock s
           else if pinUp edge \<or> pinDown edge \<or> pinLeft edge \<or> pinRight edge \<or> pinOk edge
           then s\<lparr>irJumpTriggered := True\<rparr>
           else s)
      | DODGE_GAME \<Rightarrow>
          (if pinReturn edge then toClock s
           else
             let s1 = (if pinLeft edge then s\<lparr>dodgeMoveLeft := True\<rparr> else s)
             in if pinRight edge then s1\<lparr>dodgeMoveRight := True\<rparr> else s1)
      | SNAKE_GAME \<Rightarrow>
          (if pinReturn edge then toClock s
           else
             let s1 = (if pinUp edge then s\<lparr>snakeTurnUp := True\<rparr> else s);
                 s2 = (if pinDown edge then s1\<lparr>snakeTurnDown := True\<rparr> else s1);
                 s3 = (if pinLeft edge then s2\<lparr>snakeTurnLeft := True\<rparr> else s2)
             in if pinRight edge then s3\<lparr>snakeTurnRight := True\<rparr> else s3)
      | SETTING \<Rightarrow>
          (if pinReturn edge
           then (eeprom_put EEPROM_DIFFICULTY_ADDR (difficulty s) (s\<lparr>currentMode := CLOCK\<rparr>))\<lparr>lastMin := - 1\<rparr>
           else
             let s1 = (if pinDown edge
                       then s\<lparr>currentMenu := menuOf ((menuIndex (currentMenu s) + 1) mod 4),
                              lastActivity := clock s\<rparr>
                       else s);
                 s2 = (if pinUp edge
                       then s1\<lparr>currentMenu := menuOf ((menuIndex (currentMenu s1) + 3) mod 4),
                               lastActivity := clock s1\<rparr>
                       else s1)
             in if pinOk edge
                then (let s3 = selectMenuItem now s2 in s3\<lparr>lastActivity := clock s3\<rparr>)
                else s2)
      | SET_TIME \<Rightarrow>
          (if pinReturn edge then s\<lparr>currentMode := SETTING, lastActivity := clock s\<rparr>
           else
             let s1 = (if pinUp edge \<or> pinDown edge
                       then (incrementTimeField s)\<lparr>lastActivity := clock s\<rparr> else s)
             in if pinOk edge
                then (let s2 = (if settingStep s1 < 1 then s1\<lparr>settingStep := settingStep s1 + 1\<rparr>
                                else toClock (saveTime now s1))
                      in s2\<lparr>lastActivity := clock s2\<rparr>)
                else s1)
      | SET_DATE \<Rightarrow>
          (if pinReturn edge then s\<lparr>currentMode := SETTING, lastActivity := clock s\<rparr>
           else
             let s1 = (if pinUp edge \<or> pinDown edge
                       then (incrementDateField s)\<lparr>lastActivity := clock s\<rparr> else s)
             in if pinOk edge
                then (let s2 = (if settingStep s1 < 2 then s1\<lparr>settingStep := settingStep s1 + 1\<rparr>
                                else toClock (saveDate now s1))
                      in s2\<lparr>lastActivity := clock s2\<rparr>)
                else s1))"

text \<open>\<open>pin && !last\<close> for each of the ten lines.\<close>

definition edges :: "pins \<Rightarrow> pins \<Rightarrow> pins" where
  "edges p l =
     \<lparr>pinReturn = (pinReturn p \<and> \<not> pinReturn l),
      pinUp = (pinUp p \<and> \<not> pinUp l),
      pinDown = (pinDown p \<and> \<not> pinDown l),
      pinLeft = (pinLeft p \<and> \<not> pinLeft l),
      pinRight = (pinRight p \<and> \<not> pinRight l),
      pinOk = (pinOk p \<and> \<not> pinOk l),
      pinGame1 = (pinGame1 p \<and> \<not> pinGame1 l),
      pinGame2 = (pinGame2 p \<and> \<not> pinGame2 l),
      pinGame3 = (pinGame3 p \<and> \<not> pinGame3 l),
      pinOptions = (pinOptions p \<and> \<not> pinOptions l)\<rparr>"

definition anyPin :: "pins \<Rightarrow> bool" where
  "anyPin p =
     (pinReturn p \<or> pinUp p \<or> pinDown p \<or> pinLeft p \<or> pinRight p \<or> pinOk p \<or>
      pinGame1 p \<or> pinGame2 p \<or> pinGame3 p \<or> pinOptions p)"

text \<open>\<open>p\<close> holds the levels read from the ten input lines on this pass (true = pulled low).\<close>

definition handleIRInput :: "pins \<Rightarrow> DateTime \<Rightarrow> sys \<Rightarrow> sys" where
  "handleIRInput p now s =
     (let edge = edges p (lastPins s);
          s1 = (if anyPin p then s\<lparr>lastIRActivity := clock s, lastGameIRActivity := clock s\<rparr> else s);
          s2 = irDispatch edge now s1
      in s2\<lparr>lastPins := p\<rparr>)"

definition runGameSelectMenu :: "sys \<Rightarrow> sys" where
  "runGameSelectMenu s =
     (if since s (lastIRActivity s) > GAME_SELECT_TIMEOUT_MS then toClock s else s)"

definition runSettingsMenu :: "sys \<Rightarrow> sys" where
  "runSettingsMenu s =
     (if since s (lastActivity s) > SETTINGS_TIMEOUT_MS
      then (eeprom_put EEPROM_DIFFICULTY_ADDR (difficulty s) (s\<lparr>currentMode := CLOCK\<rparr>))\<lparr>lastMin := - 1\<rparr>
      else s)"

text \<open>\<open>runTimeSettingMode\<close> and \<open>runDateSettingMode\<close> only draw.\<close>

definition runTimeSettingMode :: "sys \<Rightarrow> sys" where
  "runTimeSettingMode s = s"

definition runDateSettingMode :: "sys \<Rightarrow> sys" where
  "runDateSettingMode s = s"

text \<open>The clock branch of \<open>loop()\<close>: of its effects only \<open>lastMin\<close> is control state.\<close>

definition runClock :: "DateTime \<Rightarrow> sys \<Rightarrow> sys" where
  "runClock now s =
     (if dt_hour now = 7 \<and> dt_minute now = 30 then s
      else if dt_minute now \<noteq> lastMin s then s\<lparr>lastMin := dt_minute now\<rparr>
      else s)"

text \<open>
  What the environment supplies on one pass through \<open>loop()\<close>: the time at which the pass
  starts, the raw values the random generator returns during the pass, the button level,
  the levels of the ten input lines and the reading of the real-time clock.
\<close>

record tick_in =
  in_now :: millis
  in_rng :: "nat \<Rightarrow> nat"
  in_btn :: bool
  in_pins :: pins
  in_rtc :: DateTime

definition loop :: "tick_in \<Rightarrow> sys \<Rightarrow> sys" where
  "loop inp s =
     (let s0 = s\<lparr>clock := in_now inp, rng := in_rng inp\<rparr>;
          s1 = handleButton (in_btn inp) (in_rtc inp) s0;
          s2 = handleIRInput (in_pins inp) (in_rtc inp) s1
      in case currentMode s2 of
           GAME \<Rightarrow>
             runDinoGame (if since s2 (lastGameIRActivity s2) > GAME_TIMEOUT_MS then toClock s2 else s2)
         | DODGE_GAME \<Rightarrow> runDodgeGame s2
         | SNAKE_GAME \<Rightarrow> runSnakeGame s2
         | GAME_SELECT \<Rightarrow> runGameSelectMenu s2
         | SETTING \<Rightarrow> runSettingsMenu s2
         | SET_TIME \<Rightarrow> runTimeSettingMode s2
         | SET_DATE \<Rightarrow> runDateSettingMode s2
         | CLOCK \<Rightarrow> runClock (in_rtc inp) s2)"

fun loops :: "tick_in list \<Rightarrow> sys \<Rightarrow> sys" where
  "loops [] s = s"
| "loops (inp # inps) s = loops inps (loop inp s)"

text \<open>
  The globals after \<open>setup()\<close>, for EEPROM contents \<open>ee\<close> and a start at time \<open>t0\<close>
  (real-time clock present).
\<close>

definition noPins :: pins where
  "noPins = \<lparr>pinReturn = False, pinUp = False, pinDown = False, pinLeft = False, pinRight = False,
             pinOk = False, pinGame1 = False, pinGame2 = False, pinGame3 = False, pinOptions = False\<rparr>"

definition globals0 :: "(nat \<Rightarrow> int) \<Rightarrow> millis \<Rightarrow> sys" where
  "globals0 ee t0 =
     \<lparr>clock = t0, rng = (\<lambda>_. 0), eeprom = ee, eepromWrites = [], rtcAdjusts = [], gameOvers = 0,
      currentMode = CLOCK, currentMenu = MENU_DIFFICULTY, gameSelectChoice = 0, settingStep = 0,
      tempHour = 0, tempMinute = 0, tempYear = 2025, tempMonth = 1, tempDay = 1,
      difficulty = 1, score = 0, highScore = 0, lastMin = - 1,
      btnTimer = 0, btnActive = False, btnMediumFired = False,
      lastIRActivity = 0, lastGameIRActivity = 0, irJumpTriggered = False,
      snakeTurnUp = False, snakeTurnDown = False, snakeTurnLeft = False, snakeTurnRight = False,
      lastActivity = 0, lastPins = noPins,
      playerY = PLAYER_GROUND_Y, isJumping = False, jumpTimer = 0, obstacleX = OBSTACLE_START_X,
      obstacleType = GROUND_OBSTACLE, gameSpeed = INITIAL_GAME_SPEED, frameTimer = 0,
      dodgePlayerX = DODGE_PLAYER_START_X, dodgeSpeed = DODGE_INITIAL_SPEED, dodgeScore = 0,
      dodgeHighScore = 0,
      dodgeBlocks = replicate DODGE_MAX_BLOCKS \<lparr>blk_x = 0, blk_y = 0, blk_width = 0, blk_active = False\<rparr>,
      dodgeFrameTimer = 0, dodgeMoveLeft = False, dodgeMoveRight = False,
      snakeBody = replicate (nat SNAKE_MAX_LENGTH) \<lparr>seg_x = 0, seg_y = 0\<rparr>,
      snakeLength = 0, snakeDir = DIR_RIGHT, snakePendingDir = DIR_RIGHT, foodX = 0, foodY = 0,
      snakeSpeed = SNAKE_INITIAL_SPEED, snakeScore = 0, snakeHighScore = 0, snakeMoveTimer = 0\<rparr>"

definition bootState :: "(nat \<Rightarrow> int) \<Rightarrow> millis \<Rightarrow> sys" where
  "bootState ee t0 =
     (let s = globals0 ee t0;
          d = ee EEPROM_DIFFICULTY_ADDR;
          s1 = (if d < 1 \<or> d > 5 then eeprom_put EEPROM_DIFFICULTY_ADDR 1 (s\<lparr>difficulty := 1\<rparr>)
                else s\<lparr>difficulty := d\<rparr>);
          h = ee EEPROM_HIGHSCORE_ADDR;
          s2 = s1\<lparr>highScore := (if h < 0 \<or> h > 9999 then 0 else h)\<rparr>;
          dh = ee EEPROM_DODGE_HIGHSCORE_ADDR;
          s3 = s2\<lparr>dodgeHighScore := (if dh < 0 \<or> dh > 9999 then 0 else dh)\<rparr>;
          sh = ee EEPROM_SNAKE_HIGHSCORE_ADDR;
          s4 = s3\<lparr>snakeHighScore := (if sh < 0 \<or> sh > 99999 then 0 else sh)\<rparr>
      in s4\<lparr>lastIRActivity := clock s4, lastGameIRActivity := clock s4\<rparr>)"

section \<open>Vocabulary of the statements and concrete inputs\<close>

text \<open>The number of active block slots.\<close>

definition dodgeActiveBlocks :: "sys \<Rightarrow> nat" where
  "dodgeActiveBlocks s = length (filter blk_active (dodgeBlocks s))"

text \<open>The heading opposite to a heading (up 0, right 1, down 2, left 3).\<close>

definition snakeOpposite :: "int \<Rightarrow> int" where
  "snakeOpposite d = (d + 2) mod 4"


text \<open>A start with an all-zero EEPROM at time 0, and inputs for single passes of the loop:
  button released, a fixed reading of the real-time clock.\<close>

definition rtc0 :: DateTime where
  "rtc0 = \<lparr>dt_year = 2025, dt_month = 1, dt_day = 1, dt_hour = 12, dt_minute = 0, dt_second = 0\<rparr>"

definition boot0 :: sys where
  "boot0 = bootState (\<lambda>_. 0) 0"

definition tickIn :: "nat \<Rightarrow> (nat \<Rightarrow> nat) \<Rightarrow> pins \<Rightarrow> tick_in" where
  "tickIn t r p = \<lparr>in_now = of_nat t, in_rng = r, in_btn = False, in_pins = p, in_rtc = rtc0\<rparr>"

text \<open>Options, Down, Ok (with the line released in between) open the time editor; the
  last pass comes one hour later, with no input in between.\<close>

definition settimeIns :: "tick_in list" where
  "settimeIns =
     [tickIn 0 (\<lambda>_. 0) (noPins\<lparr>pinOptions := True\<rparr>),
      tickIn 200 (\<lambda>_. 0) noPins,
      tickIn 400 (\<lambda>_. 0) (noPins\<lparr>pinDown := True\<rparr>),
      tickIn 600 (\<lambda>_. 0) noPins,
      tickIn 800 (\<lambda>_. 0) (noPins\<lparr>pinOk := True\<rparr>),
      tickIn 1000 (\<lambda>_. 0) noPins,
      tickIn 3601000 (\<lambda>_. 0) noPins]"

definition timeoutView :: "sys \<Rightarrow> Mode \<times> millis \<times> millis \<times> millis" where
  "timeoutView s = (currentMode s, lastActivity s, lastIRActivity s, lastGameIRActivity s)"

text \<open>Game 1 launches Dino, Up at 300 ms starts a jump; \<open>midJump\<close> is the level of the Up
  line at 500 ms, while that jump is in progress. No line is active afterwards.\<close>

definition dinoIns :: "bool \<Rightarrow> tick_in list" where
  "dinoIns midJump =
     [tickIn 0 (\<lambda>_. 0) (noPins\<lparr>pinGame1 := True\<rparr>),
      tickIn 300 (\<lambda>_. 0) (noPins\<lparr>pinUp := True\<rparr>),
      tickIn 400 (\<lambda>_. 0) noPins,
      tickIn 500 (\<lambda>_. 0) (noPins\<lparr>pinUp := midJump\<rparr>),
      tickIn 600 (\<lambda>_. 0) noPins,
      tickIn 800 (\<lambda>_. 0) noPins,
      tickIn 900 (\<lambda>_. 0) noPins]"

definition dinoView :: "sys \<Rightarrow> Mode \<times> bool \<times> millis \<times> bool \<times> nat" where
  "dinoView s = (currentMode s, isJumping s, jumpTimer s, irJumpTriggered s, gameOvers s)"

text \<open>States of the Dino engine for the jump rules: a latched input on the ground, and a
  jump started at time 0 with an input latched, seen at 500 ms.\<close>

definition dinoLatched :: sys where
  "dinoLatched = boot0\<lparr>currentMode := GAME, irJumpTriggered := True\<rparr>"

definition dinoLateJump :: sys where
  "dinoLateJump = boot0\<lparr>currentMode := GAME, isJumping := True, irJumpTriggered := True, clock := 500\<rparr>"

text \<open>A Dodge state at 1600 ms: the player in the start column 7, a block of width 1 in
  column 7 and row 7, the last frame at 1400 ms.\<close>

definition dodgeRow7 :: sys where
  "dodgeRow7 =
     boot0\<lparr>currentMode := DODGE_GAME, clock := 1600, lastGameIRActivity := 1400,
           dodgeFrameTimer := 1400,
           dodgeBlocks := [\<lparr>blk_x = 7, blk_y = 7, blk_width = 1, blk_active = True\<rparr>,
                           \<lparr>blk_x = 0, blk_y = 0, blk_width = 0, blk_active = False\<rparr>]\<rparr>"

text \<open>A Dodge state with score \<open>k\<close>, one block in row \<open>y\<close> of column 0, and a generator
  that returns \<open>r\<close>.\<close>

definition dodgeAt :: "int \<Rightarrow> int \<Rightarrow> nat \<Rightarrow> sys" where
  "dodgeAt k y r =
     boot0\<lparr>currentMode := DODGE_GAME, rng := (\<lambda>_. r), dodgeScore := k,
           dodgeBlocks := [\<lparr>blk_x = 0, blk_y = y, blk_width = 1, blk_active = True\<rparr>,
                           \<lparr>blk_x = 0, blk_y = 0, blk_width = 0, blk_active = False\<rparr>]\<rparr>"

text \<open>The settings menu right after the start, with no activity since time 0.\<close>

definition settingIdle :: sys where
  "settingIdle = boot0\<lparr>currentMode := SETTING\<rparr>"

text \<open>The cell next to cell \<open>c\<close> in heading \<open>h\<close> (what the four \<open>if\<close>s on \<open>newX\<close>, \<open>newY\<close> compute).\<close>

definition snakeStepCell :: "int \<Rightarrow> SnakeSegment \<Rightarrow> SnakeSegment" where
  "snakeStepCell h c =
     \<lparr>seg_x = (if h = DIR_RIGHT then seg_x c + 1 else if h = DIR_LEFT then seg_x c - 1 else seg_x c),
      seg_y = (if h = DIR_DOWN then seg_y c + 1 else if h = DIR_UP then seg_y c - 1 else seg_y c)\<rparr>"

text \<open>A move with heading \<open>h\<close> ends in death: the cell next to the head is outside the grid or
  one of the segments \<open>0 .. snakeLength - 2\<close> (the two tests of the movement tick).\<close>

definition snakeMoveDies :: "int \<Rightarrow> sys \<Rightarrow> bool" where
  "snakeMoveDies h s =
     (let c = snakeStepCell h (snakeBody s ! 0)
      in snakeHitsWall (seg_x c) (seg_y c)
         \<or> snakeCellIn (nat (snakeLength s - 1)) (seg_x c) (seg_y c) s)"

text \<open>The direction staged by a single input \<open>d\<close> under heading \<open>h\<close>: the opposite is rejected.\<close>

definition snakeTurnResult :: "int \<Rightarrow> int \<Rightarrow> int" where
  "snakeTurnResult h d = (if d = snakeOpposite h then h else d)"

text \<open>Snake right after a reset (heading right, head on (7,5)), seen at \<open>t\<close> ms with the turn
  flag of direction \<open>d\<close> raised by the input handler.\<close>

definition snakeTurningAt :: "nat \<Rightarrow> int \<Rightarrow> sys" where
  "snakeTurningAt t d =
     (resetSnake boot0)\<lparr>currentMode := SNAKE_GAME, clock := of_nat t,
           snakeTurnUp := (d = DIR_UP), snakeTurnDown := (d = DIR_DOWN),
           snakeTurnLeft := (d = DIR_LEFT), snakeTurnRight := (d = DIR_RIGHT)\<rparr>"



text \<open>The cell is one of the body segments \<open>0 .. snakeLength - 1\<close> (the scan of \<open>spawnFood\<close>).\<close>

definition snakeOccupied :: "sys \<Rightarrow> int \<times> int \<Rightarrow> bool" where
  "snakeOccupied s c = snakeCellIn (nat (snakeLength s)) (fst c) (snd c) s"








text \<open>The input lines with Game 2 held.\<close>

definition holdGame2 :: pins where
  "holdGame2 = noPins\<lparr>pinGame2 := True\<rparr>"

text \<open>Pass \<open>n\<close> of a run that holds Game 2: pass 0 at 0 ms, pass \<open>n\<close> at \<open>200 + 400 n\<close> ms, every
  raw value of the generator 0.\<close>

definition dodgeHoldIn :: "nat \<Rightarrow> tick_in" where
  "dodgeHoldIn n = tickIn (if n = 0 then 0 else 200 + 400 * n) (\<lambda>_. 0) holdGame2"

text \<open>The state after the first \<open>n\<close> of these passes, from the start.\<close>

definition dodgeRun :: "nat \<Rightarrow> sys" where
  "dodgeRun n = loops (map dodgeHoldIn [0..<n]) boot0"

text \<open>A block of width 1 in column 0 and row \<open>y\<close>, and an unused slot.\<close>

definition fallingBlock :: "int \<Rightarrow> DodgeBlock" where
  "fallingBlock y = \<lparr>blk_x = 0, blk_y = y, blk_width = 1, blk_active = True\<rparr>"

definition emptySlot :: DodgeBlock where
  "emptySlot = \<lparr>blk_x = 0, blk_y = 0, blk_width = 0, blk_active = False\<rparr>"

text \<open>What holds after pass \<open>n\<close> of the run: Dodge is on with no death so far, the player in
  column 7, one block or two in row \<open>y\<close> of column 0, score \<open>sc\<close> and frame interval \<open>sp\<close>.\<close>

definition dodgeInv :: "nat \<Rightarrow> bool \<Rightarrow> int \<Rightarrow> int \<Rightarrow> int \<Rightarrow> sys \<Rightarrow> bool" where
  "dodgeInv n two y sc sp s \<longleftrightarrow>
     currentMode s = DODGE_GAME \<and> gameOvers s = 0 \<and> \<not> btnActive s \<and> lastPins s = holdGame2 \<and>
     dodgePlayerX s = 7 \<and> \<not> dodgeMoveLeft s \<and> \<not> dodgeMoveRight s \<and>
     dodgeFrameTimer s = of_nat (200 + 400 * n) \<and> dodgeScore s = sc \<and> dodgeSpeed s = sp \<and>
     dodgeBlocks s = [fallingBlock y, if two then fallingBlock y else emptySlot]"

text \<open>The state that pass \<open>n + 1\<close> hands to \<open>runDodgeGame\<close>.\<close>

definition dodgeHeld :: "nat \<Rightarrow> sys \<Rightarrow> sys" where
  "dodgeHeld n s =
     s\<lparr>clock := of_nat (600 + 400 * n), rng := (\<lambda>_. 0),
       lastIRActivity := of_nat (600 + 400 * n), lastGameIRActivity := of_nat (600 + 400 * n),
       lastPins := holdGame2\<rparr>"

text \<open>Score and frame interval after \<open>k\<close> passes: a block leaves the grid every tenth pass,
  two at a time from pass 50 on.\<close>

definition dodgeScoreAt :: "nat \<Rightarrow> int" where
  "dodgeScoreAt k = (if k < 50 then int (k div 10) else 2 * int (k div 10) - 5)"

definition dodgeSpeedAt :: "nat \<Rightarrow> int" where
  "dodgeSpeedAt k = (if k < 50 then 160 - 2 * int (k div 10) else 170 - 4 * int (k div 10))"

section \<open>Evaluation on concrete states\<close>

lemma upt_2: "[0..<2] = [0, Suc 0]"
  by (simp add: numeral_2_eq_2)

lemmas hw_eval = eeprom_put_def since_def delay_def random_val_def rng_advance_def

lemmas ctrl_eval = loop_def handleButton_def handleIRInput_def irDispatch_def edges_def anyPin_def
  launchGame_def toClock_def runClock_def noPins_def bootState_def globals0_def tickIn_def rtc0_def
  boot0_def runSettingsMenu_def runTimeSettingMode_def runDateSettingMode_def runGameSelectMenu_def
  selectMenuItem_def menuOf_def hw_eval

lemmas dino_eval = runDinoGame_def dinoStep_def dinoHandleJump_def dinoMoveObstacle_def dinoCollision_def
  handleGameOver_def saveHighScore_def

section \<open>High-score persistence\<close>

text \<open>
  C9. Each of the three persist operations (Dino, Dodge, Snake) writes to the EEPROM
  exactly when the score of the run is strictly greater than the high score held by the
  controller, and then writes that score at the game's own address; otherwise the list of
  writes is unchanged. Calling the operation a second time changes nothing at all: no
  second write, the same high score, the same EEPROM contents.
\<close>

theorem highscore_persist_idempotent:
  "eepromWrites (saveHighScore s) =
     eepromWrites s @ (if highScore s < score s then [(EEPROM_HIGHSCORE_ADDR, score s)] else [])
   \<and> saveHighScore (saveHighScore s) = saveHighScore s
   \<and> eepromWrites (saveDodgeHighScore s) =
     eepromWrites s @
       (if dodgeHighScore s < dodgeScore s then [(EEPROM_DODGE_HIGHSCORE_ADDR, dodgeScore s)] else [])
   \<and> saveDodgeHighScore (saveDodgeHighScore s) = saveDodgeHighScore s
   \<and> eepromWrites (saveSnakeHighScore s) =
     eepromWrites s @
       (if snakeHighScore s < snakeScore s then [(EEPROM_SNAKE_HIGHSCORE_ADDR, snakeScore s)] else [])
   \<and> saveSnakeHighScore (saveSnakeHighScore s) = saveSnakeHighScore s"
  by (simp add: saveHighScore_def saveDodgeHighScore_def saveSnakeHighScore_def eeprom_put_def)

section \<open>Dino: collision rule\<close>

lemma dinoStep_keeps:
  "gameOvers (dinoStep s) = gameOvers s"
  "playerY (dinoStep s) = (if isJumping (dinoStep s) then PLAYER_AIR_Y else PLAYER_GROUND_Y)"
  by (simp_all add: dinoStep_def dinoMoveObstacle_def dinoHandleJump_def Let_def rng_advance_def)

lemma handleGameOver_gameOvers: "gameOvers (handleGameOver s) = gameOvers s + 1"
  by (simp add: handleGameOver_def saveHighScore_def eeprom_put_def delay_def Let_def)

text \<open>
  C3. On every tick of the Dino engine, from any state, the death handler runs (the ghost
  counter goes up by one) if and only if, at the collision check of that tick, the obstacle
  is in the player's column and its type matches the player's vertical state: a ground
  obstacle with the player on the ground row, or an air obstacle with the player on the air
  row. In every other case, in particular when the column matches and type and state
  disagree, the counter is unchanged. The player's row at the check is the air row exactly
  when a jump is in progress.
\<close>

theorem dino_collision_iff:
  "(gameOvers (runDinoGame s) = gameOvers s + 1) =
     (obstacleX (dinoStep s) = PLAYER_X \<and>
      (obstacleType (dinoStep s) = GROUND_OBSTACLE \<and> playerY (dinoStep s) = PLAYER_GROUND_Y \<or>
       obstacleType (dinoStep s) = AIR_OBSTACLE \<and> playerY (dinoStep s) = PLAYER_AIR_Y))
   \<and> (gameOvers (runDinoGame s) = gameOvers s \<or> gameOvers (runDinoGame s) = gameOvers s + 1)
   \<and> (playerY (dinoStep s) = PLAYER_AIR_Y) = isJumping (dinoStep s)
   \<and> (playerY (dinoStep s) = PLAYER_GROUND_Y) = (\<not> isJumping (dinoStep s))"
  by (simp add: runDinoGame_def Let_def dinoCollision_def dinoStep_keeps handleGameOver_gameOvers)

section \<open>Dodge: what the frame step leaves alone\<close>

lemma spawnBlock_fields:
  "gameOvers (spawnBlock i s) = gameOvers s"
  "currentMode (spawnBlock i s) = currentMode s"
  "dodgePlayerX (spawnBlock i s) = dodgePlayerX s"
  "dodgeScore (spawnBlock i s) = dodgeScore s"
  "dodgeSpeed (spawnBlock i s) = dodgeSpeed s"
  "length (dodgeBlocks (spawnBlock i s)) = length (dodgeBlocks s)"
  by (simp_all add: spawnBlock_def Let_def rng_advance_def)

lemma spawnBlock_blocks:
  "dodgeBlocks (spawnBlock i s) =
     (dodgeBlocks s)[i := \<lparr>blk_x = random_val 0 (DODGE_COLS - random_val 1 4 s + 1) (rng_advance 1 4 s),
                          blk_y = 0, blk_width = random_val 1 4 s, blk_active = True\<rparr>]"
  by (simp add: spawnBlock_def Let_def rng_advance_def)

lemma dodgeFill_gameOvers: "gameOvers (dodgeFill i a t s) = gameOvers s"
  by (induction i a t s rule: dodgeFill.induct) (simp add: dodgeFill.simps spawnBlock_fields)

lemma dodgeFill_mode: "currentMode (dodgeFill i a t s) = currentMode s"
  by (induction i a t s rule: dodgeFill.induct) (simp add: dodgeFill.simps spawnBlock_fields)

lemma dodgeAdvance_keeps:
  "gameOvers (fst (dodgeAdvance s)) = gameOvers s"
  "currentMode (fst (dodgeAdvance s)) = currentMode s"
  "length (dodgeBlocks (fst (dodgeAdvance s))) = length (dodgeBlocks s)"
  by (simp_all add: dodgeAdvance_def upt_2 dodgeAdvanceBlock_def Let_def split_beta)

lemma dodgeFrame_keeps:
  "gameOvers (dodgeFrame s) = gameOvers s"
  "currentMode (dodgeFrame s) = currentMode s"
  using dodgeAdvance_keeps(1,2) [of "s\<lparr>dodgeFrameTimer := clock s\<rparr>"]
  by (simp_all add: dodgeFrame_def Let_def split_beta dodgeFill_gameOvers dodgeFill_mode
      dodgeTargetDraw_def rng_advance_def)

lemma dodgeStep_keeps:
  "gameOvers (dodgeStep s) = gameOvers s"
  "currentMode (dodgeStep s) = currentMode s"
  by (simp_all add: dodgeStep_def Let_def dodgeFrame_keeps dodgeMovePlayer_def)

lemma handleDodgeGameOver_keeps:
  "gameOvers (handleDodgeGameOver s) = gameOvers s + 1"
  "currentMode (handleDodgeGameOver s) = currentMode s"
  by (simp_all add: handleDodgeGameOver_def resetDodgeGame_def Let_def spawnBlock_fields
      saveDodgeHighScore_def eeprom_put_def delay_def)

lemma runDodgeGame_mode:
  "currentMode (runDodgeGame s) = (if dodgeTimedOut s then CLOCK else currentMode s)"
  by (simp add: runDodgeGame_def Let_def dodgeStep_keeps handleDodgeGameOver_keeps)

text \<open>Evaluation of the fill loop: conditional equations, one per branch.\<close>

lemma dodgeFill_stop:
  assumes "\<not> (i < DODGE_MAX_BLOCKS \<and> a < t)"
  shows "dodgeFill i a t s = s"
  by (subst dodgeFill.simps) (simp only: assms if_False)

lemma dodgeFill_spawn:
  "i < DODGE_MAX_BLOCKS \<Longrightarrow> a < t \<Longrightarrow> \<not> blk_active (dodgeBlocks s ! i) \<Longrightarrow>
     dodgeFill i a t s = dodgeFill (i + 1) (a + 1) t (spawnBlock i s)"
  by (subst dodgeFill.simps) simp

lemma dodgeFill_skip:
  "i < DODGE_MAX_BLOCKS \<Longrightarrow> a < t \<Longrightarrow> blk_active (dodgeBlocks s ! i) \<Longrightarrow>
     dodgeFill i a t s = dodgeFill (i + 1) a t s"
  by (subst dodgeFill.simps) simp

lemmas dodge_eval = runDodgeGame_def dodgeTimedOut_def dodgeStep_def dodgeMovePlayer_def dodgeFrameDue_def
  dodgeFrame_def dodgeAdvance_def dodgeAdvanceBlock_def dodgeCountActive_def dodgeTargetBlocks_def
  dodgeTargetDraw_def dodgeCollides_def dodgeBlockCollides_def blockHitsPlayer_def spawnBlock_def
  resetDodgeGame_def handleDodgeGameOver_def saveDodgeHighScore_def dodgeActiveBlocks_def
  dodgeFill_stop dodgeFill_spawn dodgeFill_skip upt_2

section \<open>Dodge: target block count and refill\<close>

lemma length2E:
  assumes "length xs = 2"
  obtains a b where "xs = [a, b]"
  using assms by (cases xs; cases "tl xs") auto

lemma dodgeAdvance_count:
  assumes "length (dodgeBlocks s) = DODGE_MAX_BLOCKS"
  shows "snd (dodgeAdvance s) = int (dodgeActiveBlocks (fst (dodgeAdvance s)))"
proof -
  from assms obtain a b where ab: "dodgeBlocks s = [a, b]"
    by (auto elim: length2E)
  show ?thesis
    by (simp add: dodgeAdvance_def dodgeCountActive_def upt_2 dodgeAdvanceBlock_def Let_def
        dodgeActiveBlocks_def ab)
qed

lemma dodgeFill_count:
  assumes "length (dodgeBlocks s) = DODGE_MAX_BLOCKS" and "t = 1 \<or> t = 2"
  shows "int (dodgeActiveBlocks (dodgeFill 0 (int (dodgeActiveBlocks s)) t s)) =
           max (int (dodgeActiveBlocks s)) t"
proof -
  from assms(1) obtain a b where ab: "dodgeBlocks s = [a, b]"
    by (auto elim: length2E)
  have f2: "dodgeFill (Suc (Suc 0)) n t u = u" for n u
    by (simp add: dodgeFill.simps)
  show ?thesis
    using assms(2)
    by (auto simp: dodgeFill.simps [of 0] dodgeFill.simps [of "Suc 0"] f2 dodgeActiveBlocks_def ab
        spawnBlock_blocks)
qed

text \<open>
  C5. On a frame step of the Dodge engine, with the score as it is after the blocks have
  advanced: the target count is 1 when the score is below 5, 2 when it is at least 15, and in
  the band 5 to 14 it is decided by one draw of \<open>random(0, 2)\<close>, that is by the parity of
  the next raw value of the generator (2 when even, 1 when odd), so that at score 14 it is
  not forced to 2. After the frame step the number of active blocks is the larger of the
  number left by the advance and the target: empty slots are refilled up to the target
  within the same step.
\<close>

theorem dodge_target_blocks:
  assumes "length (dodgeBlocks s) = DODGE_MAX_BLOCKS"
  shows "let s1 = fst (dodgeAdvance (s\<lparr>dodgeFrameTimer := clock s\<rparr>)); target = dodgeTargetBlocks s1
         in (dodgeScore s1 < 5 \<longrightarrow> target = 1)
          \<and> (15 \<le> dodgeScore s1 \<longrightarrow> target = 2)
          \<and> (5 \<le> dodgeScore s1 \<and> dodgeScore s1 \<le> 14 \<longrightarrow> target = (if even (rng s1 0) then 2 else 1))
          \<and> int (dodgeActiveBlocks (dodgeFrame s)) = max (int (dodgeActiveBlocks s1)) target"
proof -
  define s1 where "s1 = fst (dodgeAdvance (s\<lparr>dodgeFrameTimer := clock s\<rparr>))"
  have len1: "length (dodgeBlocks s1) = DODGE_MAX_BLOCKS"
    using assms by (simp add: s1_def dodgeAdvance_keeps)
  have cnt: "snd (dodgeAdvance (s\<lparr>dodgeFrameTimer := clock s\<rparr>)) = int (dodgeActiveBlocks s1)"
    unfolding s1_def using assms by (intro dodgeAdvance_count) simp
  have tgt: "dodgeTargetBlocks s1 = 1 \<or> dodgeTargetBlocks s1 = 2"
    by (simp add: dodgeTargetBlocks_def)
  have draw: "dodgeBlocks (dodgeTargetDraw s1) = dodgeBlocks s1"
    by (simp add: dodgeTargetDraw_def rng_advance_def)
  have len2: "length (dodgeBlocks (dodgeTargetDraw s1)) = DODGE_MAX_BLOCKS"
    using len1 by (simp add: draw)
  have act: "dodgeActiveBlocks (dodgeTargetDraw s1) = dodgeActiveBlocks s1"
    by (simp add: dodgeActiveBlocks_def draw)
  have frame: "dodgeFrame s =
      dodgeFill 0 (int (dodgeActiveBlocks s1)) (dodgeTargetBlocks s1) (dodgeTargetDraw s1)"
    using cnt by (simp add: dodgeFrame_def Let_def split_beta s1_def)
  have fill: "int (dodgeActiveBlocks (dodgeFrame s)) =
      max (int (dodgeActiveBlocks s1)) (dodgeTargetBlocks s1)"
    using dodgeFill_count [OF len2 tgt] by (simp add: frame act)
  have band: "5 \<le> dodgeScore s1 \<and> dodgeScore s1 \<le> 14 \<longrightarrow>
      dodgeTargetBlocks s1 = (if even (rng s1 0) then 2 else 1)"
    by (auto simp: dodgeTargetBlocks_def random_val_def)
  show ?thesis
    using fill band by (simp add: Let_def s1_def [symmetric] dodgeTargetBlocks_def)
qed

text \<open>
  Witness for C5: four frame steps with one block in row 3 of column 0. At score 14 an odd
  draw gives target 1 and one active block, an even draw target 2 and two; at score 4 the
  target is 1 and at score 15 it is 2 whatever the generator returns.
\<close>

theorem dodge_target_blocks_witness:
  "length (dodgeBlocks (dodgeAt 14 3 1)) = DODGE_MAX_BLOCKS
   \<and> dodgeScore (fst (dodgeAdvance ((dodgeAt 14 3 1)\<lparr>dodgeFrameTimer := clock (dodgeAt 14 3 1)\<rparr>))) = 14
   \<and> dodgeTargetBlocks (fst (dodgeAdvance ((dodgeAt 14 3 1)\<lparr>dodgeFrameTimer := clock (dodgeAt 14 3 1)\<rparr>))) = 1
   \<and> dodgeActiveBlocks (dodgeFrame (dodgeAt 14 3 1)) = 1
   \<and> dodgeTargetBlocks (fst (dodgeAdvance ((dodgeAt 14 3 0)\<lparr>dodgeFrameTimer := clock (dodgeAt 14 3 0)\<rparr>))) = 2
   \<and> dodgeActiveBlocks (dodgeFrame (dodgeAt 14 3 0)) = 2
   \<and> dodgeTargetBlocks (fst (dodgeAdvance ((dodgeAt 4 3 0)\<lparr>dodgeFrameTimer := clock (dodgeAt 4 3 0)\<rparr>))) = 1
   \<and> dodgeActiveBlocks (dodgeFrame (dodgeAt 4 3 0)) = 1
   \<and> dodgeTargetBlocks (fst (dodgeAdvance ((dodgeAt 15 3 1)\<lparr>dodgeFrameTimer := clock (dodgeAt 15 3 1)\<rparr>))) = 2
   \<and> dodgeActiveBlocks (dodgeFrame (dodgeAt 15 3 1)) = 2"
proof -
  have len: "length (dodgeBlocks (dodgeAt k 3 r)) = DODGE_MAX_BLOCKS" for k r
    by (simp add: dodgeAt_def)
  have adv: "fst (dodgeAdvance ((dodgeAt k 3 r)\<lparr>dodgeFrameTimer := clock (dodgeAt k 3 r)\<rparr>)) =
      (dodgeAt k 4 r)\<lparr>dodgeFrameTimer := clock (dodgeAt k 3 r)\<rparr>" for k r
    by (simp add: dodgeAt_def dodge_eval ctrl_eval Let_def)
  have sel: "dodgeScore ((dodgeAt k y r)\<lparr>dodgeFrameTimer := t\<rparr>) = k"
      "rng ((dodgeAt k y r)\<lparr>dodgeFrameTimer := t\<rparr>) 0 = r"
      "dodgeActiveBlocks ((dodgeAt k y r)\<lparr>dodgeFrameTimer := t\<rparr>) = 1"
      "dodgeScore (dodgeAt k y r) = k" "rng (dodgeAt k y r) 0 = r" for k y r t
    by (simp_all add: dodgeAt_def dodgeActiveBlocks_def ctrl_eval)
  have a: "dodgeTargetBlocks (fst (dodgeAdvance ((dodgeAt 14 3 1)\<lparr>dodgeFrameTimer := clock (dodgeAt 14 3 1)\<rparr>))) = 1
      \<and> dodgeActiveBlocks (dodgeFrame (dodgeAt 14 3 1)) = 1"
    using dodge_target_blocks [OF len, of 14 1] by (auto simp add: Let_def adv sel)
  have b: "dodgeTargetBlocks (fst (dodgeAdvance ((dodgeAt 14 3 0)\<lparr>dodgeFrameTimer := clock (dodgeAt 14 3 0)\<rparr>))) = 2
      \<and> dodgeActiveBlocks (dodgeFrame (dodgeAt 14 3 0)) = 2"
    using dodge_target_blocks [OF len, of 14 0] by (auto simp add: Let_def adv sel)
  have c: "dodgeTargetBlocks (fst (dodgeAdvance ((dodgeAt 4 3 0)\<lparr>dodgeFrameTimer := clock (dodgeAt 4 3 0)\<rparr>))) = 1
      \<and> dodgeActiveBlocks (dodgeFrame (dodgeAt 4 3 0)) = 1"
    using dodge_target_blocks [OF len, of 4 0] by (auto simp add: Let_def adv sel)
  have d: "dodgeTargetBlocks (fst (dodgeAdvance ((dodgeAt 15 3 1)\<lparr>dodgeFrameTimer := clock (dodgeAt 15 3 1)\<rparr>))) = 2
      \<and> dodgeActiveBlocks (dodgeFrame (dodgeAt 15 3 1)) = 2"
    using dodge_target_blocks [OF len, of 15 1] by (auto simp add: Let_def adv sel)
  show ?thesis
    using a b c d by (simp add: len adv sel)
qed

section \<open>Dodge: collision rule\<close>

text \<open>
  Counterexample to C6 as stated. In \<open>dodgeRow7\<close> the frame step moves the only active
  block from row 7 to row 8, in the player's column. The death handler runs on that tick,
  although no active block is in a row at or past the player's row, which is row 9.
\<close>

theorem dodge_collision_above_player_row:
  "gameOvers (runDodgeGame dodgeRow7) = gameOvers dodgeRow7 + 1
   \<and> map blk_y (filter blk_active (dodgeBlocks (dodgeStep dodgeRow7))) = [8]
   \<and> dodgePlayerX (dodgeStep dodgeRow7) = 7
   \<and> map blk_x (filter blk_active (dodgeBlocks (dodgeStep dodgeRow7))) = [7]
   \<and> DODGE_PLAYER_Y = 9"
  by (simp add: dodgeRow7_def dodge_eval ctrl_eval Let_def)

text \<open>
  C6, amended. On a tick of the Dodge engine that is not ended by the idle timeout, the
  death handler runs if and only if, at the collision check, some active block is in row
  \<open>DODGE_PLAYER_Y - 1\<close> or below (the upper of the two rows the player occupies, or past it)
  and the player's column lies in the block's span \<open>[x, x + width)\<close>. A block whose span
  excludes the player's column never ends the game.
\<close>

theorem dodge_collision_iff:
  assumes "\<not> dodgeTimedOut s"
  shows "(gameOvers (runDodgeGame s) = gameOvers s + 1) =
           (\<exists>i<DODGE_MAX_BLOCKS.
              blk_active (dodgeBlocks (dodgeStep s) ! i) \<and>
              DODGE_PLAYER_Y - 1 \<le> blk_y (dodgeBlocks (dodgeStep s) ! i) \<and>
              blk_x (dodgeBlocks (dodgeStep s) ! i) \<le> dodgePlayerX (dodgeStep s) \<and>
              dodgePlayerX (dodgeStep s) <
                blk_x (dodgeBlocks (dodgeStep s) ! i) + blk_width (dodgeBlocks (dodgeStep s) ! i))
         \<and> (gameOvers (runDodgeGame s) = gameOvers s \<or> gameOvers (runDodgeGame s) = gameOvers s + 1)"
proof -
  have col: "dodgeCollides t =
      (\<exists>i<DODGE_MAX_BLOCKS. blk_active (dodgeBlocks t ! i) \<and> DODGE_PLAYER_Y - 1 \<le> blk_y (dodgeBlocks t ! i) \<and>
         blk_x (dodgeBlocks t ! i) \<le> dodgePlayerX t \<and>
         dodgePlayerX t < blk_x (dodgeBlocks t ! i) + blk_width (dodgeBlocks t ! i))" for t
    by (auto simp: dodgeCollides_def dodgeBlockCollides_def blockHitsPlayer_def Let_def list_ex_iff)
  show ?thesis
    using assms
    by (simp add: runDodgeGame_def Let_def col [of "dodgeStep s", symmetric, simplified]
        dodgeStep_keeps handleDodgeGameOver_keeps)
qed

text \<open>
  Witness for C6: \<open>dodgeRow7\<close> is not timed out, slot 0 holds an active block in row 8
  over the player's column at the check, and the death handler runs.
\<close>

theorem dodge_collision_iff_witness:
  "\<not> dodgeTimedOut dodgeRow7
   \<and> blk_active (dodgeBlocks (dodgeStep dodgeRow7) ! 0)
   \<and> DODGE_PLAYER_Y - 1 \<le> blk_y (dodgeBlocks (dodgeStep dodgeRow7) ! 0)
   \<and> blk_x (dodgeBlocks (dodgeStep dodgeRow7) ! 0) \<le> dodgePlayerX (dodgeStep dodgeRow7)
   \<and> dodgePlayerX (dodgeStep dodgeRow7) <
        blk_x (dodgeBlocks (dodgeStep dodgeRow7) ! 0) + blk_width (dodgeBlocks (dodgeStep dodgeRow7) ! 0)
   \<and> gameOvers (runDodgeGame dodgeRow7) = gameOvers dodgeRow7 + 1"
proof -
  have h: "\<not> dodgeTimedOut dodgeRow7"
    by (simp add: dodgeRow7_def dodge_eval ctrl_eval)
  have b: "dodgeBlocks (dodgeStep dodgeRow7) ! 0 = \<lparr>blk_x = 7, blk_y = 8, blk_width = 1, blk_active = True\<rparr>"
      "dodgePlayerX (dodgeStep dodgeRow7) = 7"
    by (simp_all add: dodgeRow7_def dodge_eval ctrl_eval Let_def)
  have "\<exists>i<DODGE_MAX_BLOCKS.
              blk_active (dodgeBlocks (dodgeStep dodgeRow7) ! i) \<and>
              DODGE_PLAYER_Y - 1 \<le> blk_y (dodgeBlocks (dodgeStep dodgeRow7) ! i) \<and>
              blk_x (dodgeBlocks (dodgeStep dodgeRow7) ! i) \<le> dodgePlayerX (dodgeStep dodgeRow7) \<and>
              dodgePlayerX (dodgeStep dodgeRow7) <
                blk_x (dodgeBlocks (dodgeStep dodgeRow7) ! i) + blk_width (dodgeBlocks (dodgeStep dodgeRow7) ! i)"
    by (rule exI [of _ 0]) (simp add: b)
  with dodge_collision_iff [OF h] have "gameOvers (runDodgeGame dodgeRow7) = gameOvers dodgeRow7 + 1"
    by blast
  with h b show ?thesis by simp
qed

section \<open>Dino: jump rules\<close>

lemma dinoStep_jump_fields:
  "isJumping (dinoStep s) = isJumping (dinoHandleJump s)"
  "jumpTimer (dinoStep s) = jumpTimer (dinoHandleJump s)"
  "irJumpTriggered (dinoStep s) = irJumpTriggered (dinoHandleJump s)"
  by (simp_all add: dinoStep_def dinoMoveObstacle_def Let_def rng_advance_def)

lemma dino_jump_start:
  "irJumpTriggered s \<Longrightarrow> \<not> isJumping s \<Longrightarrow>
     isJumping (dinoStep s) \<and> jumpTimer (dinoStep s) = clock s \<and> \<not> irJumpTriggered (dinoStep s)"
  by (simp add: dinoStep_jump_fields dinoHandleJump_def Let_def since_def)

lemma dino_no_jump:
  "\<not> irJumpTriggered s \<Longrightarrow> \<not> isJumping s \<Longrightarrow> \<not> isJumping (dinoStep s)"
  by (simp add: dinoStep_jump_fields dinoHandleJump_def Let_def)

lemma dino_jump_running:
  "isJumping s \<Longrightarrow>
     isJumping (dinoStep s) = (since s (jumpTimer s) \<le> JUMP_DURATION_MS) \<and>
     jumpTimer (dinoStep s) = jumpTimer s \<and>
     irJumpTriggered (dinoStep s) = irJumpTriggered s"
  by (simp add: dinoStep_jump_fields dinoHandleJump_def Let_def not_less)

lemma dino_jump_latched:
  assumes "isJumping s" "irJumpTriggered s" "JUMP_DURATION_MS < since s (jumpTimer s)"
  shows "\<not> isJumping (dinoStep s) \<and>
         isJumping (dinoStep ((dinoStep s)\<lparr>clock := t\<rparr>)) \<and>
         jumpTimer (dinoStep ((dinoStep s)\<lparr>clock := t\<rparr>)) = t"
proof -
  have a: "\<not> isJumping (dinoStep s)" "irJumpTriggered (dinoStep s)"
    using dino_jump_running [OF assms(1)] assms(2,3) by simp_all
  have "isJumping (dinoStep u) \<and> jumpTimer (dinoStep u) = clock u"
    if "irJumpTriggered u" "\<not> isJumping u" for u
    using dino_jump_start [OF that] by simp
  from this [of "(dinoStep s)\<lparr>clock := t\<rparr>"] a show ?thesis by simp
qed

lemma dino_input_latch:
  assumes "currentMode s = GAME" "\<not> pinReturn e"
    "pinUp e \<or> pinDown e \<or> pinLeft e \<or> pinRight e \<or> pinOk e"
  shows "irJumpTriggered (irDispatch e now s) \<and>
         isJumping (irDispatch e now s) = isJumping s \<and>
         jumpTimer (irDispatch e now s) = jumpTimer s"
  using assms by (simp add: irDispatch_def)

text \<open>
  Counterexample to C7 as stated. Two runs from the start differ in one input only: the
  level of the Up line at 500 ms, while the jump started at 300 ms is in progress. No line
  is active after that. With the extra input a second jump starts at 900 ms, on the first
  pass after the first jump has ended; without it the player is on the ground. So an input
  arriving during a jump does change the game state.
\<close>

theorem dino_jump_input_kept:
  "dinoView (loops (dinoIns True) boot0) = (GAME, True, 900, False, 0)
   \<and> dinoView (loops (dinoIns False) boot0) = (GAME, False, 300, False, 0)"
  by (simp add: dinoView_def dinoIns_def ctrl_eval dino_eval Let_def)

text \<open>
  C7, amended. In the Dino engine, with the state at the collision check of a tick:
  \<^item> a latched jump input met while the player is not jumping starts a jump at the current
    time and is consumed; without a latched input the player stays on the ground;
  \<^item> a jump in progress is still in progress after the tick exactly when the time since its
    start is at most \<open>JUMP_DURATION_MS\<close>, whatever the input; the tick changes neither its
    start time nor the latch, so an input arriving during the jump neither restarts nor
    extends it;
  \<^item> such an input stays latched: on the tick that ends the jump the player is on the
    ground, and the next tick (at any time \<open>t\<close>) starts a new jump at \<open>t\<close>;
  \<^item> in Dino mode an edge on Up, Down, Left, Right or Ok without an edge on Return sets
    the latch, whether or not a jump is in progress.
\<close>

theorem dino_jump_rules:
  "(irJumpTriggered s \<and> \<not> isJumping s \<longrightarrow>
      isJumping (dinoStep s) \<and> jumpTimer (dinoStep s) = clock s \<and> \<not> irJumpTriggered (dinoStep s))
   \<and> (\<not> irJumpTriggered s \<and> \<not> isJumping s \<longrightarrow> \<not> isJumping (dinoStep s))
   \<and> (isJumping s \<longrightarrow>
        isJumping (dinoStep s) = (since s (jumpTimer s) \<le> JUMP_DURATION_MS) \<and>
        jumpTimer (dinoStep s) = jumpTimer s \<and>
        irJumpTriggered (dinoStep s) = irJumpTriggered s)
   \<and> (isJumping s \<and> irJumpTriggered s \<and> JUMP_DURATION_MS < since s (jumpTimer s) \<longrightarrow>
        \<not> isJumping (dinoStep s) \<and>
        isJumping (dinoStep ((dinoStep s)\<lparr>clock := t\<rparr>)) \<and>
        jumpTimer (dinoStep ((dinoStep s)\<lparr>clock := t\<rparr>)) = t)
   \<and> (currentMode s = GAME \<and> \<not> pinReturn e \<and>
        (pinUp e \<or> pinDown e \<or> pinLeft e \<or> pinRight e \<or> pinOk e) \<longrightarrow>
        irJumpTriggered (irDispatch e now s) \<and>
        isJumping (irDispatch e now s) = isJumping s \<and>
        jumpTimer (irDispatch e now s) = jumpTimer s)"
  using dino_jump_start [of s] dino_no_jump [of s] dino_jump_running [of s]
    dino_jump_latched [of s t] dino_input_latch [of s e now]
  by blast

text \<open>
  Witness for C7: a latched input on the ground starts a jump at the current time; the
  start state stays on the ground; a jump started at 0 with an input latched, seen at
  500 ms, ends on that tick and the next tick at 600 ms starts a new jump; an Up edge in
  Dino mode sets the latch during that jump.
\<close>

theorem dino_jump_rules_witness:
  "irJumpTriggered dinoLatched \<and> \<not> isJumping dinoLatched
   \<and> isJumping (dinoStep dinoLatched) \<and> jumpTimer (dinoStep dinoLatched) = clock dinoLatched
   \<and> \<not> irJumpTriggered boot0 \<and> \<not> isJumping boot0 \<and> \<not> isJumping (dinoStep boot0)
   \<and> isJumping dinoLateJump \<and> irJumpTriggered dinoLateJump
   \<and> JUMP_DURATION_MS < since dinoLateJump (jumpTimer dinoLateJump)
   \<and> \<not> isJumping (dinoStep dinoLateJump)
   \<and> isJumping (dinoStep ((dinoStep dinoLateJump)\<lparr>clock := 600\<rparr>))
   \<and> jumpTimer (dinoStep ((dinoStep dinoLateJump)\<lparr>clock := 600\<rparr>)) = 600
   \<and> currentMode dinoLateJump = GAME
   \<and> irJumpTriggered (irDispatch (noPins\<lparr>pinUp := True\<rparr>) rtc0 dinoLateJump)"
proof -
  have h1: "irJumpTriggered dinoLatched" "\<not> isJumping dinoLatched"
    by (simp_all add: dinoLatched_def ctrl_eval)
  have h2: "\<not> irJumpTriggered boot0" "\<not> isJumping boot0"
    by (simp_all add: ctrl_eval)
  have h3: "isJumping dinoLateJump" "irJumpTriggered dinoLateJump"
      "JUMP_DURATION_MS < since dinoLateJump (jumpTimer dinoLateJump)" "currentMode dinoLateJump = GAME"
    by (simp_all add: dinoLateJump_def ctrl_eval)
  have h4: "\<not> pinReturn (noPins\<lparr>pinUp := True\<rparr>)" "pinUp (noPins\<lparr>pinUp := True\<rparr>)"
    by (simp_all add: noPins_def)
  show ?thesis
    using h1 h2 h3 h4 dino_jump_rules [where s = dinoLatched]
      dino_jump_rules [where s = boot0]
      dino_jump_rules [where s = dinoLateJump and t = 600 and e = "noPins\<lparr>pinUp := True\<rparr>" and now = rtc0]
    by blast
qed

section \<open>Snake: what the placement loop does\<close>

lemma snakeCellIn_rng: "snakeCellIn n cx cy (s\<lparr>rng := r\<rparr>) = snakeCellIn n cx cy s"
  by (simp add: snakeCellIn_def)

text \<open>The placement loop changes the generator and nothing else.\<close>

lemma spawnFoodLoop_frame:
  "snd (snd (spawnFoodLoop n s)) = s\<lparr>rng := rng (snd (snd (spawnFoodLoop n s)))\<rparr>"
proof (induction n s rule: spawnFoodLoop.induct)
  case (1 tries s)
  let ?s1 = "rng_advance 0 SNAKE_COLS s"
  let ?s2 = "rng_advance 0 SNAKE_ROWS ?s1"
  let ?fx = "random_val 0 SNAKE_COLS s"
  let ?fy = "random_val 0 SNAKE_ROWS ?s1"
  have s2: "?s2 = s\<lparr>rng := rng ?s2\<rparr>"
    by (simp add: rng_advance_def)
  show ?case
  proof (cases "snakeCellIn (nat (snakeLength ?s2)) ?fx ?fy ?s2 \<and> tries + 1 < SNAKE_FOOD_TRIES")
    case True
    then have rec: "spawnFoodLoop tries s = spawnFoodLoop (tries + 1) ?s2"
      by (subst spawnFoodLoop.simps) (simp add: Let_def)
    have "snd (snd (spawnFoodLoop (tries + 1) ?s2)) =
            ?s2\<lparr>rng := rng (snd (snd (spawnFoodLoop (tries + 1) ?s2)))\<rparr>"
      using True by (intro "1.IH" [OF refl refl refl refl refl]) simp_all
    also have "\<dots> = s\<lparr>rng := rng (snd (snd (spawnFoodLoop (tries + 1) ?s2)))\<rparr>"
      by (simp add: rng_advance_def)
    finally show ?thesis
      unfolding rec .
  next
    case False
    then have "spawnFoodLoop tries s = (?fx, ?fy, ?s2)"
      by (subst spawnFoodLoop.simps) (auto simp: Let_def)
    then show ?thesis using s2 by simp
  qed
qed

lemma spawnFood_frame:
  "spawnFood s = s\<lparr>rng := rng (spawnFood s), foodX := foodX (spawnFood s), foodY := foodY (spawnFood s)\<rparr>"
proof -
  obtain fx fy s1 where l: "spawnFoodLoop 0 s = (fx, fy, s1)"
    by (cases "spawnFoodLoop 0 s") auto
  from spawnFoodLoop_frame [of 0 s] l have "s1 = s\<lparr>rng := rng s1\<rparr>" by simp
  then show ?thesis
    by (simp add: spawnFood_def l)
qed


text \<open>Exhaustion: when each of the remaining draws lands on the body, the loop ends after
  try 200 and returns the last cell drawn, which the body occupies.\<close>

lemma spawnFoodLoop_exhausted:
  assumes "n < SNAKE_FOOD_TRIES"
    and "\<And>k. k < SNAKE_FOOD_TRIES - n \<Longrightarrow>
           snakeCellIn (nat (snakeLength s)) (int (rng s (2 * k)) mod SNAKE_COLS)
             (int (rng s (2 * k + 1)) mod SNAKE_ROWS) s"
  shows "spawnFoodLoop n s =
           (int (rng s (2 * (SNAKE_FOOD_TRIES - 1 - n))) mod SNAKE_COLS,
            int (rng s (2 * (SNAKE_FOOD_TRIES - 1 - n) + 1)) mod SNAKE_ROWS,
            s\<lparr>rng := \<lambda>i. rng s (i + 2 * (SNAKE_FOOD_TRIES - n))\<rparr>)"
  using assms
proof (induction "SNAKE_FOOD_TRIES - n" arbitrary: n s)
  case 0
  then show ?case by simp
next
  case (Suc m)
  let ?s2 = "s\<lparr>rng := \<lambda>i. rng s (Suc (Suc i))\<rparr>"
  have occ0: "snakeCellIn (nat (snakeLength s)) (int (rng s 0) mod 15) (int (rng s (Suc 0)) mod 10) s"
    using Suc.prems(2) [of 0] Suc.prems(1) by simp
  show ?case
  proof (cases "n + 1 < SNAKE_FOOD_TRIES")
    case True
    have m: "m = SNAKE_FOOD_TRIES - (n + 1)" using Suc.hyps(2) by simp
    have occ: "snakeCellIn (nat (snakeLength ?s2)) (int (rng ?s2 (2 * k)) mod SNAKE_COLS)
             (int (rng ?s2 (2 * k + 1)) mod SNAKE_ROWS) ?s2" if "k < SNAKE_FOOD_TRIES - (n + 1)" for k
      using Suc.prems(2) [of "Suc k"] that by (simp add: snakeCellIn_rng)
    have rec: "spawnFoodLoop n s = spawnFoodLoop (n + 1) ?s2"
      using occ0 True
      by (subst spawnFoodLoop.simps) (simp add: Let_def rng_advance_def random_val_def snakeCellIn_rng)
    have idx: "Suc (Suc (2 * (198 - n))) = 2 * (199 - n)"
        "Suc (Suc (i + 2 * (199 - n))) = i + 2 * (200 - n)" for i
      using True by simp_all
    show ?thesis
      unfolding rec
      by (subst Suc.hyps(1) [OF m True occ]) (simp_all add: idx)
  next
    case False
    then have n: "n = 199" using Suc.prems(1) by simp
    show ?thesis
      using occ0 unfolding n
      by (subst spawnFoodLoop.simps) (simp add: Let_def rng_advance_def random_val_def snakeCellIn_rng)
  qed
qed



lemma spawnFood_fields:
  "snakeDir (spawnFood s) = snakeDir s" "snakePendingDir (spawnFood s) = snakePendingDir s"
  "snakeBody (spawnFood s) = snakeBody s" "snakeLength (spawnFood s) = snakeLength s"
  "gameOvers (spawnFood s) = gameOvers s" "snakeMoveTimer (spawnFood s) = snakeMoveTimer s"
  "lastGameIRActivity (spawnFood s) = lastGameIRActivity s" "snakeSpeed (spawnFood s) = snakeSpeed s"
  "clock (spawnFood s) = clock s" "currentMode (spawnFood s) = currentMode s"
  "snakeTurnUp (spawnFood s) = snakeTurnUp s" "snakeTurnDown (spawnFood s) = snakeTurnDown s"
  "snakeTurnLeft (spawnFood s) = snakeTurnLeft s" "snakeTurnRight (spawnFood s) = snakeTurnRight s"
  by (subst spawnFood_frame, simp)+

lemma resetSnake_fields:
  "snakeDir (resetSnake s) = DIR_RIGHT" "snakePendingDir (resetSnake s) = DIR_RIGHT"
  "gameOvers (resetSnake s) = gameOvers s" "snakeMoveTimer (resetSnake s) = clock s"
  "lastGameIRActivity (resetSnake s) = clock s" "snakeSpeed (resetSnake s) = SNAKE_INITIAL_SPEED"
  "snakeLength (resetSnake s) = 3"
  "\<not> snakeTurnUp (resetSnake s)" "\<not> snakeTurnDown (resetSnake s)"
  "\<not> snakeTurnLeft (resetSnake s)" "\<not> snakeTurnRight (resetSnake s)"
  "snakeBody (resetSnake s) = (snakeBody s)
     [0 := \<lparr>seg_x = 7, seg_y = 5\<rparr>, 1 := \<lparr>seg_x = 6, seg_y = 5\<rparr>, 2 := \<lparr>seg_x = 5, seg_y = 5\<rparr>]"
  by (simp_all add: resetSnake_def spawnFood_fields)

lemma snakeShift_length: "length (snakeShift n b) = length b"
  by (induction n arbitrary: b) simp_all

section \<open>Snake: turning\<close>

lemma snakeApplyInput_fields:
  "snakeDir (snakeApplyInput s) = snakeDir s"
  "\<not> snakeTurnUp (snakeApplyInput s)" "\<not> snakeTurnDown (snakeApplyInput s)"
  "\<not> snakeTurnLeft (snakeApplyInput s)" "\<not> snakeTurnRight (snakeApplyInput s)"
  by (simp_all add: snakeApplyInput_def Let_def)

lemma snakeApplyInput_idle:
  "\<not> snakeTurnUp s \<Longrightarrow> \<not> snakeTurnDown s \<Longrightarrow> \<not> snakeTurnLeft s \<Longrightarrow> \<not> snakeTurnRight s \<Longrightarrow>
     snakePendingDir (snakeApplyInput s) = snakePendingDir s"
  by (simp add: snakeApplyInput_def Let_def)

lemma snakeApplyInput_single:
  assumes "snakePendingDir s = snakeDir s"
    and "snakeDir s \<in> {DIR_UP, DIR_RIGHT, DIR_DOWN, DIR_LEFT}"
    and "d \<in> {DIR_UP, DIR_RIGHT, DIR_DOWN, DIR_LEFT}"
    and "snakeTurnUp s = (d = DIR_UP)" and "snakeTurnDown s = (d = DIR_DOWN)"
    and "snakeTurnLeft s = (d = DIR_LEFT)" and "snakeTurnRight s = (d = DIR_RIGHT)"
  shows "snakePendingDir (snakeApplyInput s) = (if d = snakeOpposite (snakeDir s) then snakeDir s else d)"
proof -
  consider "d = 0" | "d = 1" | "d = 2" | "d = 3" using assms(3) by auto
  then show ?thesis
  proof cases
    case 1 with assms show ?thesis by (auto simp: snakeApplyInput_def Let_def snakeOpposite_def)
  next
    case 2 with assms show ?thesis by (auto simp: snakeApplyInput_def Let_def snakeOpposite_def)
  next
    case 3 with assms show ?thesis by (auto simp: snakeApplyInput_def Let_def snakeOpposite_def)
  next
    case 4 with assms show ?thesis by (auto simp: snakeApplyInput_def Let_def snakeOpposite_def)
  qed
qed

lemma runSnakeGame_phases:
  "runSnakeGame s =
     (if snakeTimedOut s then s\<lparr>currentMode := CLOCK, lastMin := - 1\<rparr>
      else if snakeMoveDue (snakeApplyInput s) then snakeMove (snakeApplyInput s)
      else snakeApplyInput s)"
  by (simp add: runSnakeGame_def Let_def)

lemma handleSnakeDeath_fields:
  "snakeDir (handleSnakeDeath s) = DIR_RIGHT" "snakePendingDir (handleSnakeDeath s) = DIR_RIGHT"
  "gameOvers (handleSnakeDeath s) = gameOvers s + 1"
  by (simp_all add: handleSnakeDeath_def Let_def resetSnake_fields saveSnakeHighScore_def hw_eval)

lemma snakeAdvance_fields:
  "snakeDir (snakeAdvance x y s) = snakeDir s"
  "snakePendingDir (snakeAdvance x y s) = snakePendingDir s"
  "gameOvers (snakeAdvance x y s) = gameOvers s"
  "snakeBody s \<noteq> [] \<Longrightarrow> snakeBody (snakeAdvance x y s) ! 0 = \<lparr>seg_x = x, seg_y = y\<rparr>"
  by (simp_all add: snakeAdvance_def Let_def spawnFood_fields snakeShift_length)

lemma snakeNew_stepCell:
  "\<lparr>seg_x = snakeNewX (snakeSetHeading s), seg_y = snakeNewY (snakeSetHeading s)\<rparr> =
     snakeStepCell (snakePendingDir s) (snakeBody s ! 0)"
  by (simp add: snakeNewX_def snakeNewY_def snakeSetHeading_def snakeStepCell_def Let_def)

lemma snakeMove_cases:
  "snakeMove s =
     (if snakeMoveDies (snakePendingDir s) s then handleSnakeDeath (snakeSetHeading s)
      else snakeAdvance (seg_x (snakeStepCell (snakePendingDir s) (snakeBody s ! 0)))
             (seg_y (snakeStepCell (snakePendingDir s) (snakeBody s ! 0))) (snakeSetHeading s))"
proof -
  have c: "snakeStepCell (snakePendingDir s) (snakeBody s ! 0) =
      \<lparr>seg_x = snakeNewX (snakeSetHeading s), seg_y = snakeNewY (snakeSetHeading s)\<rparr>"
    by (rule snakeNew_stepCell [symmetric])
  have i: "snakeCellIn n x y (snakeSetHeading s) = snakeCellIn n x y s"
      "snakeLength (snakeSetHeading s) = snakeLength s" for n x y
    by (simp_all add: snakeCellIn_def snakeSetHeading_def)
  show ?thesis
    unfolding c by (simp add: snakeMove_def snakeMoveDies_def Let_def i c)
qed

lemma snakeMove_dies:
  "snakeMoveDies (snakePendingDir s) s \<Longrightarrow> gameOvers (snakeMove s) = gameOvers s + 1"
  by (simp add: snakeMove_cases handleSnakeDeath_fields snakeSetHeading_def)

lemma snakeMove_lives:
  assumes "\<not> snakeMoveDies (snakePendingDir s) s" "snakeBody s \<noteq> []"
  shows "snakeDir (snakeMove s) = snakePendingDir s"
    "snakeBody (snakeMove s) ! 0 = snakeStepCell (snakePendingDir s) (snakeBody s ! 0)"
    "gameOvers (snakeMove s) = gameOvers s"
  using assms by (simp_all add: snakeMove_cases snakeAdvance_fields snakeSetHeading_def)

lemma snakeMove_nothing_staged: "snakePendingDir (snakeMove s) = snakeDir (snakeMove s)"
  by (simp add: snakeMove_cases snakeAdvance_fields handleSnakeDeath_fields snakeSetHeading_def)

lemma snakeApplyInput_keeps:
  "snakeMoveDue (snakeApplyInput s) = snakeMoveDue s"
  "snakeBody (snakeApplyInput s) = snakeBody s"
  "snakeLength (snakeApplyInput s) = snakeLength s"
  "gameOvers (snakeApplyInput s) = gameOvers s"
  "snakeMoveDies h (snakeApplyInput s) = snakeMoveDies h s"
  by (simp_all add: snakeApplyInput_def snakeMoveDue_def snakeMoveDies_def snakeCellIn_def since_def Let_def)

lemma snakeApplyInput_no_flags:
  "\<not> snakeTurnUp s \<Longrightarrow> \<not> snakeTurnDown s \<Longrightarrow> \<not> snakeTurnLeft s \<Longrightarrow> \<not> snakeTurnRight s \<Longrightarrow>
     snakeApplyInput s = s"
  by (simp add: snakeApplyInput_def Let_def)

text \<open>A movement tick of the engine, entered with the direction \<open>h\<close> staged.\<close>

lemma runSnakeGame_move:
  assumes "\<not> snakeTimedOut s" "snakeMoveDue s" "snakePendingDir (snakeApplyInput s) = h"
    "snakeBody s \<noteq> []"
  shows "if snakeMoveDies h s then gameOvers (runSnakeGame s) = gameOvers s + 1
         else snakeDir (runSnakeGame s) = h
            \<and> snakeBody (runSnakeGame s) ! 0 = snakeStepCell h (snakeBody s ! 0)
            \<and> gameOvers (runSnakeGame s) = gameOvers s"
proof -
  let ?u = "snakeApplyInput s"
  have r: "runSnakeGame s = snakeMove ?u"
    using assms(1,2) by (simp add: runSnakeGame_phases snakeApplyInput_keeps)
  have b: "snakeBody ?u \<noteq> []" using assms(4) by (simp add: snakeApplyInput_keeps)
  show ?thesis
  proof (cases "snakeMoveDies h s")
    case True
    then have "snakeMoveDies (snakePendingDir ?u) ?u"
      by (simp add: assms(3) snakeApplyInput_keeps)
    from snakeMove_dies [OF this] True show ?thesis
      by (simp add: r snakeApplyInput_keeps)
  next
    case False
    then have "\<not> snakeMoveDies (snakePendingDir ?u) ?u"
      by (simp add: assms(3) snakeApplyInput_keeps)
    from snakeMove_lives [OF this b] False show ?thesis
      by (simp add: r assms(3) snakeApplyInput_keeps)
  qed
qed

text \<open>
  C4. Let the Snake engine be between movement ticks with nothing staged: the pending
  direction equals the heading \<open>H\<close>, as it does after every movement tick and every reset
  (last conjunct). Let the input handler have raised exactly one turn flag, for direction
  \<open>d\<close>, and let the tick not be the timeout exit. Write \<open>h\<close> for \<open>H\<close> when \<open>d\<close> is the opposite of
  \<open>H\<close> and for \<open>d\<close> otherwise. If the tick is a movement tick, the move is made with heading
  \<open>h\<close>: when the cell next to the head in direction \<open>h\<close> is a wall or a body segment the death
  handler runs; otherwise the heading after the tick is \<open>h\<close>, the new head is that cell and
  there is no death. If the tick is not a movement tick, heading, body and length are
  unchanged, and a later tick with no further input, at any time, either is not a movement
  tick and changes nothing, or is the movement tick, made with heading \<open>h\<close> in the same way.
\<close>

theorem snake_turn_applied:
  assumes "snakePendingDir s = snakeDir s"
    and "snakeDir s \<in> {DIR_UP, DIR_RIGHT, DIR_DOWN, DIR_LEFT}"
    and "d \<in> {DIR_UP, DIR_RIGHT, DIR_DOWN, DIR_LEFT}"
    and "snakeTurnUp s = (d = DIR_UP)" and "snakeTurnDown s = (d = DIR_DOWN)"
    and "snakeTurnLeft s = (d = DIR_LEFT)" and "snakeTurnRight s = (d = DIR_RIGHT)"
    and "\<not> snakeTimedOut s" and "snakeBody s \<noteq> []"
  shows "(snakeMoveDue s \<longrightarrow>
            (if snakeMoveDies (snakeTurnResult (snakeDir s) d) s
             then gameOvers (runSnakeGame s) = gameOvers s + 1
             else snakeDir (runSnakeGame s) = snakeTurnResult (snakeDir s) d
                \<and> snakeBody (runSnakeGame s) ! 0 =
                    snakeStepCell (snakeTurnResult (snakeDir s) d) (snakeBody s ! 0)
                \<and> gameOvers (runSnakeGame s) = gameOvers s))
       \<and> (\<not> snakeMoveDue s \<longrightarrow>
            snakeDir (runSnakeGame s) = snakeDir s
          \<and> snakeBody (runSnakeGame s) = snakeBody s
          \<and> snakeLength (runSnakeGame s) = snakeLength s
          \<and> gameOvers (runSnakeGame s) = gameOvers s
          \<and> (\<forall>t r. \<not> snakeTimedOut ((runSnakeGame s)\<lparr>clock := t, rng := r\<rparr>) \<longrightarrow>
                (if snakeMoveDue ((runSnakeGame s)\<lparr>clock := t, rng := r\<rparr>)
                 then (if snakeMoveDies (snakeTurnResult (snakeDir s) d) s
                       then gameOvers (runSnakeGame ((runSnakeGame s)\<lparr>clock := t, rng := r\<rparr>)) =
                              gameOvers s + 1
                       else snakeDir (runSnakeGame ((runSnakeGame s)\<lparr>clock := t, rng := r\<rparr>)) =
                              snakeTurnResult (snakeDir s) d
                          \<and> snakeBody (runSnakeGame ((runSnakeGame s)\<lparr>clock := t, rng := r\<rparr>)) ! 0 =
                              snakeStepCell (snakeTurnResult (snakeDir s) d) (snakeBody s ! 0)
                          \<and> gameOvers (runSnakeGame ((runSnakeGame s)\<lparr>clock := t, rng := r\<rparr>)) =
                              gameOvers s)
                 else runSnakeGame ((runSnakeGame s)\<lparr>clock := t, rng := r\<rparr>) =
                        (runSnakeGame s)\<lparr>clock := t, rng := r\<rparr>)))
       \<and> (\<forall>u. snakePendingDir (snakeMove u) = snakeDir (snakeMove u)
              \<and> snakePendingDir (resetSnake u) = snakeDir (resetSnake u))"
proof -
  let ?h = "snakeTurnResult (snakeDir s) d"
  have staged: "snakePendingDir (snakeApplyInput s) = ?h"
    using snakeApplyInput_single [OF assms(1-7)] by (simp add: snakeTurnResult_def)
  have A: "snakeMoveDue s \<longrightarrow>
            (if snakeMoveDies ?h s
             then gameOvers (runSnakeGame s) = gameOvers s + 1
             else snakeDir (runSnakeGame s) = ?h
                \<and> snakeBody (runSnakeGame s) ! 0 = snakeStepCell ?h (snakeBody s ! 0)
                \<and> gameOvers (runSnakeGame s) = gameOvers s)"
    using runSnakeGame_move [OF assms(8) _ staged assms(9)] by blast
  have B: "snakeDir (runSnakeGame s) = snakeDir s
          \<and> snakeBody (runSnakeGame s) = snakeBody s
          \<and> snakeLength (runSnakeGame s) = snakeLength s
          \<and> gameOvers (runSnakeGame s) = gameOvers s
          \<and> (\<forall>t r. \<not> snakeTimedOut ((runSnakeGame s)\<lparr>clock := t, rng := r\<rparr>) \<longrightarrow>
                (if snakeMoveDue ((runSnakeGame s)\<lparr>clock := t, rng := r\<rparr>)
                 then (if snakeMoveDies ?h s
                       then gameOvers (runSnakeGame ((runSnakeGame s)\<lparr>clock := t, rng := r\<rparr>)) =
                              gameOvers s + 1
                       else snakeDir (runSnakeGame ((runSnakeGame s)\<lparr>clock := t, rng := r\<rparr>)) = ?h
                          \<and> snakeBody (runSnakeGame ((runSnakeGame s)\<lparr>clock := t, rng := r\<rparr>)) ! 0 =
                              snakeStepCell ?h (snakeBody s ! 0)
                          \<and> gameOvers (runSnakeGame ((runSnakeGame s)\<lparr>clock := t, rng := r\<rparr>)) =
                              gameOvers s)
                 else runSnakeGame ((runSnakeGame s)\<lparr>clock := t, rng := r\<rparr>) =
                        (runSnakeGame s)\<lparr>clock := t, rng := r\<rparr>))" if nd: "\<not> snakeMoveDue s"
  proof -
    have r: "runSnakeGame s = snakeApplyInput s"
      using assms(8) nd by (simp add: runSnakeGame_phases snakeApplyInput_keeps)
    have later: "(if snakeMoveDue u
                 then (if snakeMoveDies ?h s
                       then gameOvers (runSnakeGame u) = gameOvers s + 1
                       else snakeDir (runSnakeGame u) = ?h
                          \<and> snakeBody (runSnakeGame u) ! 0 = snakeStepCell ?h (snakeBody s ! 0)
                          \<and> gameOvers (runSnakeGame u) = gameOvers s)
                 else runSnakeGame u = u)"
      if u: "u = (snakeApplyInput s)\<lparr>clock := t, rng := r\<rparr>" and nt: "\<not> snakeTimedOut u" for u t r
    proof -
      have id: "snakeApplyInput u = u"
        unfolding u by (rule snakeApplyInput_no_flags) (simp_all add: snakeApplyInput_fields)
      have f: "snakePendingDir (snakeApplyInput u) = ?h" "snakeBody u = snakeBody s"
          "gameOvers u = gameOvers s" "snakeMoveDies ?h u = snakeMoveDies ?h s"
        unfolding id unfolding u
        by (simp_all add: staged snakeApplyInput_keeps snakeMoveDies_def snakeCellIn_def)
      show ?thesis
      proof (cases "snakeMoveDue u")
        case True
        have "snakeBody u \<noteq> []" using assms(9) f(2) by simp
        from runSnakeGame_move [OF nt True f(1) this] True show ?thesis
          by (simp add: f)
      next
        case False
        then show ?thesis using nt by (simp add: runSnakeGame_phases id)
      qed
    qed
    show ?thesis
      unfolding r using later [OF refl]
      by (simp add: snakeApplyInput_fields snakeApplyInput_keeps)
  qed
  show ?thesis
    using A B snakeMove_nothing_staged resetSnake_fields(1,2) by simp
qed

text \<open>
  Witness for C4, right after a reset (heading right, head on (7,5)). At 300 ms the move is
  due: an Up input turns the snake up, onto (7,4); a Left input, the opposite, leaves the
  heading right, onto (8,5). At 100 ms the move is not due: a Down input leaves the heading
  right in that tick and is applied by the move at 300 ms.
\<close>

theorem snake_turn_applied_witness:
  "snakeDir (snakeTurningAt 300 DIR_UP) = DIR_RIGHT
   \<and> snakeBody (snakeTurningAt 300 DIR_UP) ! 0 = \<lparr>seg_x = 7, seg_y = 5\<rparr>
   \<and> snakeMoveDue (snakeTurningAt 300 DIR_UP)
   \<and> snakeDir (runSnakeGame (snakeTurningAt 300 DIR_UP)) = DIR_UP
   \<and> snakeBody (runSnakeGame (snakeTurningAt 300 DIR_UP)) ! 0 = \<lparr>seg_x = 7, seg_y = 4\<rparr>
   \<and> snakeMoveDue (snakeTurningAt 300 DIR_LEFT)
   \<and> snakeDir (runSnakeGame (snakeTurningAt 300 DIR_LEFT)) = DIR_RIGHT
   \<and> snakeBody (runSnakeGame (snakeTurningAt 300 DIR_LEFT)) ! 0 = \<lparr>seg_x = 8, seg_y = 5\<rparr>
   \<and> \<not> snakeMoveDue (snakeTurningAt 100 DIR_DOWN)
   \<and> snakeDir (runSnakeGame (snakeTurningAt 100 DIR_DOWN)) = DIR_RIGHT
   \<and> snakeDir (runSnakeGame ((runSnakeGame (snakeTurningAt 100 DIR_DOWN))\<lparr>clock := 300, rng := \<lambda>_. 0\<rparr>)) =
       DIR_DOWN"
proof -
  have h: "snakePendingDir (snakeTurningAt t d) = snakeDir (snakeTurningAt t d)"
      "snakeDir (snakeTurningAt t d) = DIR_RIGHT"
      "snakeDir (snakeTurningAt t d) \<in> {DIR_UP, DIR_RIGHT, DIR_DOWN, DIR_LEFT}"
      "snakeTurnUp (snakeTurningAt t d) = (d = DIR_UP)" "snakeTurnDown (snakeTurningAt t d) = (d = DIR_DOWN)"
      "snakeTurnLeft (snakeTurningAt t d) = (d = DIR_LEFT)" "snakeTurnRight (snakeTurningAt t d) = (d = DIR_RIGHT)"
      "gameOvers (snakeTurningAt t d) = 0" for t d
    by (simp_all add: snakeTurningAt_def resetSnake_fields boot0_def bootState_def globals0_def
        Let_def hw_eval)
  have b: "snakeBody (snakeTurningAt t d) = (snakeBody boot0)
            [0 := \<lparr>seg_x = 7, seg_y = 5\<rparr>, 1 := \<lparr>seg_x = 6, seg_y = 5\<rparr>, 2 := \<lparr>seg_x = 5, seg_y = 5\<rparr>]"
      "snakeLength (snakeTurningAt t d) = 3" for t d
    by (simp_all add: snakeTurningAt_def resetSnake_fields)
  have l: "length (snakeBody boot0) = 24"
    by (simp add: ctrl_eval)
  have b0: "snakeBody (snakeTurningAt t d) \<noteq> []" "snakeBody (snakeTurningAt t d) ! 0 = \<lparr>seg_x = 7, seg_y = 5\<rparr>"
      "snakeBody (snakeTurningAt t d) ! Suc 0 = \<lparr>seg_x = 6, seg_y = 5\<rparr>" for t d
    using l by (auto simp: b)
  have tm: "snakeMoveTimer (snakeTurningAt t d) = 0" "lastGameIRActivity (snakeTurningAt t d) = 0"
      "snakeSpeed (snakeTurningAt t d) = 300" "clock (snakeTurningAt t d) = of_nat t" for t d
    by (simp_all add: snakeTurningAt_def resetSnake_fields boot0_def bootState_def globals0_def
        Let_def hw_eval)
  have nt: "\<not> snakeTimedOut (snakeTurningAt 300 d)" "\<not> snakeTimedOut (snakeTurningAt 100 d)"
      and due: "snakeMoveDue (snakeTurningAt 300 d)" "\<not> snakeMoveDue (snakeTurningAt 100 d)" for d
    by (simp_all add: snakeTimedOut_def snakeMoveDue_def since_def tm)
  have dirs: "DIR_LEFT \<in> {DIR_UP, DIR_RIGHT, DIR_DOWN, DIR_LEFT}" "DIR_UP \<in> {DIR_UP, DIR_RIGHT, DIR_DOWN, DIR_LEFT}"
      "DIR_DOWN \<in> {DIR_UP, DIR_RIGHT, DIR_DOWN, DIR_LEFT}"
    by simp_all
  have live: "\<not> snakeMoveDies 0 (snakeTurningAt t d)" "\<not> snakeMoveDies 1 (snakeTurningAt t d)"
      "\<not> snakeMoveDies 2 (snakeTurningAt t d)" for t d
    by (simp_all add: snakeMoveDies_def snakeStepCell_def snakeHitsWall_def snakeCellIn_def b0 b(2) upt_2)
  let ?s = "snakeTurningAt 100 DIR_DOWN"
  have later: "\<not> snakeTimedOut ((runSnakeGame ?s)\<lparr>clock := 300, rng := \<lambda>_. 0\<rparr>)"
      "snakeMoveDue ((runSnakeGame ?s)\<lparr>clock := 300, rng := \<lambda>_. 0\<rparr>)"
    using nt(2) [of DIR_DOWN] due(2) [of DIR_DOWN]
    by (simp_all add: runSnakeGame_phases snakeApplyInput_keeps snakeApplyInput_def Let_def
        snakeTimedOut_def snakeMoveDue_def since_def tm)
  have staged: "snakeDir (runSnakeGame ((runSnakeGame ?s)\<lparr>clock := 300, rng := \<lambda>_. 0\<rparr>)) = DIR_DOWN"
    using snake_turn_applied [OF h(1) h(3) dirs(3) h(4-7) nt(2) b0(1), THEN conjunct2, THEN conjunct1,
        THEN mp, OF due(2), THEN conjunct2, THEN conjunct2, THEN conjunct2, THEN conjunct2,
        THEN spec, THEN spec, THEN mp, OF later(1)] later(2)
    by (simp add: h live snakeTurnResult_def snakeOpposite_def)
  show ?thesis
    using snake_turn_applied [OF h(1) h(3) dirs(2) h(4-7) nt(1) b0(1)]
      snake_turn_applied [OF h(1) h(3) dirs(1) h(4-7) nt(1) b0(1)]
      snake_turn_applied [OF h(1) h(3) dirs(3) h(4-7) nt(2) b0(1)] staged
    by (simp add: h b0 due live snakeTurnResult_def snakeOpposite_def snakeStepCell_def)
qed

section \<open>Snake: food placement\<close>



lemma snakeOccupied_rng [simp]: "snakeOccupied (s\<lparr>rng := r\<rparr>) c = snakeOccupied s c"
  by (simp add: snakeOccupied_def snakeCellIn_def)



















section \<open>Snake: distinct body cells\<close>


















section \<open>Idle timeouts\<close>

lemma spawnFood_mode: "currentMode (spawnFood s) = currentMode s"
  by (subst spawnFood_frame) simp

lemma resetSnake_mode: "currentMode (resetSnake s) = currentMode s"
  by (simp add: resetSnake_def spawnFood_mode)

lemma handleSnakeDeath_mode: "currentMode (handleSnakeDeath s) = currentMode s"
  by (simp add: handleSnakeDeath_def Let_def resetSnake_mode delay_def saveSnakeHighScore_def eeprom_put_def)

lemma snakeAdvance_mode: "currentMode (snakeAdvance x y s) = currentMode s"
  by (simp add: snakeAdvance_def Let_def spawnFood_mode)

lemma snakeMove_mode: "currentMode (snakeMove s) = currentMode s"
  by (simp add: snakeMove_def Let_def snakeAdvance_mode handleSnakeDeath_mode snakeSetHeading_def)

lemma runSnakeGame_mode:
  "currentMode (runSnakeGame s) = (if snakeTimedOut s then CLOCK else currentMode s)"
  by (simp add: runSnakeGame_def Let_def snakeMove_mode snakeApplyInput_def)

lemma runDinoGame_mode: "currentMode (runDinoGame s) = currentMode s"
  by (simp add: runDinoGame_def dinoStep_def dinoMoveObstacle_def dinoHandleJump_def Let_def
      handleGameOver_def saveHighScore_def eeprom_put_def delay_def rng_advance_def)

lemma handleButton_idle: "\<not> btnActive s \<Longrightarrow> handleButton False now s = s"
  by (simp add: handleButton_def Let_def)

lemma edges_noPins: "edges noPins l = noPins"
  by (simp add: edges_def noPins_def)

lemma noPins_sel:
  "\<not> pinReturn noPins" "\<not> pinUp noPins" "\<not> pinDown noPins" "\<not> pinLeft noPins" "\<not> pinRight noPins"
  "\<not> pinOk noPins" "\<not> pinGame1 noPins" "\<not> pinGame2 noPins" "\<not> pinGame3 noPins" "\<not> pinOptions noPins"
  by (simp_all add: noPins_def)

lemma anyPin_noPins: "\<not> anyPin noPins"
  by (simp add: anyPin_def noPins_sel)

lemma irDispatch_idle:
  "irDispatch noPins now s =
     (if currentMode s = GAME_SELECT \<and> GAME_SELECT_TIMEOUT_MS < since s (lastIRActivity s)
      then toClock s else s)"
  by (cases "currentMode s") (simp_all add: irDispatch_def noPins_sel)

lemma handleIRInput_idle:
  "handleIRInput noPins now s =
     (if currentMode s = GAME_SELECT \<and> GAME_SELECT_TIMEOUT_MS < since s (lastIRActivity s)
      then toClock s else s)\<lparr>lastPins := noPins\<rparr>"
  unfolding handleIRInput_def Let_def edges_noPins
  by (simp only: anyPin_noPins if_False irDispatch_idle)

lemma loop_idle:
  assumes "\<not> in_btn inp" and "in_pins inp = noPins" and "\<not> btnActive s"
  shows "loop inp s =
     (let s2 = (if currentMode s = GAME_SELECT \<and> GAME_SELECT_TIMEOUT_MS < uint (in_now inp - lastIRActivity s)
                then toClock (s\<lparr>clock := in_now inp, rng := in_rng inp\<rparr>)
                else s\<lparr>clock := in_now inp, rng := in_rng inp\<rparr>)\<lparr>lastPins := noPins\<rparr>
      in case currentMode s2 of
           GAME \<Rightarrow>
             runDinoGame (if since s2 (lastGameIRActivity s2) > GAME_TIMEOUT_MS then toClock s2 else s2)
         | DODGE_GAME \<Rightarrow> runDodgeGame s2
         | SNAKE_GAME \<Rightarrow> runSnakeGame s2
         | GAME_SELECT \<Rightarrow> runGameSelectMenu s2
         | SETTING \<Rightarrow> runSettingsMenu s2
         | SET_TIME \<Rightarrow> runTimeSettingMode s2
         | SET_DATE \<Rightarrow> runDateSettingMode s2
         | CLOCK \<Rightarrow> runClock (in_rtc inp) s2)"
proof -
  let ?s0 = "s\<lparr>clock := in_now inp, rng := in_rng inp\<rparr>"
  have b: "handleButton (in_btn inp) (in_rtc inp) ?s0 = ?s0"
    using assms by (simp add: handleButton_idle)
  have i: "handleIRInput (in_pins inp) (in_rtc inp) ?s0 =
      (if currentMode s = GAME_SELECT \<and> GAME_SELECT_TIMEOUT_MS < uint (in_now inp - lastIRActivity s)
       then toClock ?s0 else ?s0)\<lparr>lastPins := noPins\<rparr>"
    unfolding assms(2) handleIRInput_idle by (simp add: since_def)
  show ?thesis
    unfolding loop_def Let_def b i ..
qed

text \<open>
  Counterexample to C2 as stated. Options, Down and Ok open the time editor at 800 ms;
  the next input-free pass comes one hour later. The controller is still in the time
  editor: no idle time ends this mode.
\<close>

theorem settime_survives_idle_hour:
  "timeoutView (loops settimeIns boot0) = (SET_TIME, 800, 800, 800)
   \<and> in_now (last settimeIns) = 3601000
   \<and> in_pins (last settimeIns) = noPins"
  by (simp add: timeoutView_def settimeIns_def ctrl_eval Let_def)

text \<open>
  C2, amended. Take a pass through the loop with no input (button up and not being
  tracked, no line active) and let \<open>D\<close> be the time since the mode's activity timestamp,
  read at that pass. The mode after the pass is Clock exactly when \<open>D\<close> exceeds the mode's
  window, and the mode is otherwise unchanged: 15 s since the last game input for Dino and
  Dodge, 20 s since the last game input for Snake, 10 s since the last input of any kind
  for the game selection, 30 s since the last settings activity for the settings menu.
  The time editor and the date editor have no window: an input-free pass leaves them as
  they are whatever the idle time.
\<close>

theorem idle_timeout_per_mode:
  assumes "\<not> in_btn inp" and "in_pins inp = noPins" and "\<not> btnActive s"
  shows "currentMode (loop inp s) =
     (case currentMode s of
        GAME \<Rightarrow> if GAME_TIMEOUT_MS < uint (in_now inp - lastGameIRActivity s) then CLOCK else GAME
      | DODGE_GAME \<Rightarrow> if DODGE_TIMEOUT_MS < uint (in_now inp - lastGameIRActivity s) then CLOCK else DODGE_GAME
      | SNAKE_GAME \<Rightarrow> if SNAKE_TIMEOUT_MS < uint (in_now inp - lastGameIRActivity s) then CLOCK else SNAKE_GAME
      | GAME_SELECT \<Rightarrow> if GAME_SELECT_TIMEOUT_MS < uint (in_now inp - lastIRActivity s) then CLOCK else GAME_SELECT
      | SETTING \<Rightarrow> if SETTINGS_TIMEOUT_MS < uint (in_now inp - lastActivity s) then CLOCK else SETTING
      | SET_TIME \<Rightarrow> SET_TIME
      | SET_DATE \<Rightarrow> SET_DATE
      | CLOCK \<Rightarrow> CLOCK)"
proof (cases "currentMode s")
  case CLOCK
  then show ?thesis
    by (simp add: loop_idle [OF assms] Let_def runClock_def)
next
  case SETTING
  then show ?thesis
    by (simp add: loop_idle [OF assms] Let_def runSettingsMenu_def since_def eeprom_put_def)
next
  case GAME
  then show ?thesis
    by (simp add: loop_idle [OF assms] Let_def runDinoGame_mode since_def toClock_def)
next
  case DODGE_GAME
  then show ?thesis
    by (simp add: loop_idle [OF assms] Let_def runDodgeGame_mode dodgeTimedOut_def since_def)
next
  case GAME_SELECT
  then show ?thesis
    by (simp add: loop_idle [OF assms] Let_def runGameSelectMenu_def since_def toClock_def runClock_def)
next
  case SET_TIME
  then show ?thesis
    by (simp add: loop_idle [OF assms] Let_def runTimeSettingMode_def)
next
  case SET_DATE
  then show ?thesis
    by (simp add: loop_idle [OF assms] Let_def runDateSettingMode_def)
next
  case SNAKE_GAME
  then show ?thesis
    by (simp add: loop_idle [OF assms] Let_def runSnakeGame_mode snakeTimedOut_def since_def)
qed

text \<open>
  Witness for C2: in the settings menu, last active at time 0, an input-free pass at
  30000 ms stays in the menu and one at 30001 ms returns to Clock.
\<close>

theorem idle_timeout_per_mode_witness:
  "\<not> in_btn (tickIn 30001 (\<lambda>_. 0) noPins) \<and> in_pins (tickIn 30001 (\<lambda>_. 0) noPins) = noPins
   \<and> \<not> btnActive settingIdle \<and> currentMode settingIdle = SETTING \<and> lastActivity settingIdle = 0
   \<and> currentMode (loop (tickIn 30000 (\<lambda>_. 0) noPins) settingIdle) = SETTING
   \<and> currentMode (loop (tickIn 30001 (\<lambda>_. 0) noPins) settingIdle) = CLOCK"
proof -
  have h: "\<not> in_btn (tickIn t (\<lambda>_. 0) noPins)" "in_pins (tickIn t (\<lambda>_. 0) noPins) = noPins"
      "in_now (tickIn t (\<lambda>_. 0) noPins) = of_nat t" for t
    by (simp_all add: tickIn_def)
  have s: "\<not> btnActive settingIdle" "currentMode settingIdle = SETTING" "lastActivity settingIdle = 0"
    by (simp_all add: settingIdle_def ctrl_eval)
  show ?thesis
    using idle_timeout_per_mode [OF h(1,2) s(1), of 30000] idle_timeout_per_mode [OF h(1,2) s(1), of 30001]
    by (simp add: h s)
qed

section \<open>Dodge: the frame interval\<close>

text \<open>The advance loop on one or two blocks of column 0 in the same row.\<close>

lemma dodgeAdvance_fall:
  assumes "dodgeBlocks t = [fallingBlock y, if two then fallingBlock y else emptySlot]" "y < 9"
  shows "dodgeAdvance t =
     (t\<lparr>dodgeBlocks := [fallingBlock (y + 1), if two then fallingBlock (y + 1) else emptySlot]\<rparr>,
      if two then 2 else 1)"
  using assms
  by (cases two)
     (simp_all add: dodgeAdvance_def dodgeAdvanceBlock_def dodgeCountActive_def upt_2 Let_def
       fallingBlock_def emptySlot_def)

lemma dodgeFrame_fall:
  assumes "dodgeBlocks t = [fallingBlock y, if two then fallingBlock y else emptySlot]" "y < 9"
    "\<not> two \<longrightarrow> dodgeScore t < 5" "rng t = (\<lambda>_. 0)"
  shows "dodgeFrame t =
     t\<lparr>dodgeFrameTimer := clock t, rng := (\<lambda>_. 0),
       dodgeBlocks := [fallingBlock (y + 1), if two then fallingBlock (y + 1) else emptySlot]\<rparr>"
proof -
  have a: "dodgeAdvance (t\<lparr>dodgeFrameTimer := clock t\<rparr>) =
     (t\<lparr>dodgeFrameTimer := clock t,
        dodgeBlocks := [fallingBlock (y + 1), if two then fallingBlock (y + 1) else emptySlot]\<rparr>,
      if two then 2 else 1)"
    using dodgeAdvance_fall [of "t\<lparr>dodgeFrameTimer := clock t\<rparr>" y two] assms(1,2) by simp
  show ?thesis
    unfolding dodgeFrame_def a Let_def prod.case
    using assms(3,4)
    by (cases two)
       (simp_all add: dodgeTargetBlocks_def dodgeTargetDraw_def dodgeFill_stop hw_eval)
qed

lemma dodgeAdvance_retire1:
  assumes "dodgeBlocks t = [fallingBlock 9, emptySlot]" "35 < dodgeSpeed t"
  shows "dodgeAdvance t =
     (t\<lparr>dodgeBlocks := [(fallingBlock 10)\<lparr>blk_active := False\<rparr>, emptySlot],
        dodgeScore := dodgeScore t + 1, dodgeSpeed := dodgeSpeed t - 2\<rparr>, 0)"
  using assms
  by (simp add: dodgeAdvance_def dodgeAdvanceBlock_def dodgeCountActive_def upt_2 Let_def
       fallingBlock_def emptySlot_def)

lemma dodgeAdvance_retire2:
  assumes "dodgeBlocks t = [fallingBlock 9, fallingBlock 9]" "37 < dodgeSpeed t"
  shows "dodgeAdvance t =
     (t\<lparr>dodgeBlocks := [(fallingBlock 10)\<lparr>blk_active := False\<rparr>, (fallingBlock 10)\<lparr>blk_active := False\<rparr>],
        dodgeScore := dodgeScore t + 2, dodgeSpeed := dodgeSpeed t - 4\<rparr>, 0)"
  using assms
  by (simp add: dodgeAdvance_def dodgeAdvanceBlock_def dodgeCountActive_def upt_2 Let_def
       fallingBlock_def emptySlot_def)

lemma spawnBlock_zero:
  assumes "rng t = (\<lambda>_. 0)"
  shows "spawnBlock i t = t\<lparr>rng := (\<lambda>_. 0), dodgeBlocks := (dodgeBlocks t)[i := fallingBlock 0]\<rparr>"
  using assms by (simp add: spawnBlock_def Let_def hw_eval fallingBlock_def)

lemma dodgeFrame_retire1:
  assumes "dodgeBlocks t = [fallingBlock 9, emptySlot]" "35 < dodgeSpeed t" "rng t = (\<lambda>_. 0)"
    "dodgeScore t < 5"
  shows "dodgeFrame t =
     t\<lparr>dodgeFrameTimer := clock t, rng := (\<lambda>_. 0),
       dodgeBlocks := [fallingBlock 0, if dodgeScore t = 4 then fallingBlock 0 else emptySlot],
       dodgeScore := dodgeScore t + 1, dodgeSpeed := dodgeSpeed t - 2\<rparr>"
proof -
  have a: "dodgeAdvance (t\<lparr>dodgeFrameTimer := clock t\<rparr>) =
     (t\<lparr>dodgeFrameTimer := clock t,
        dodgeBlocks := [(fallingBlock 10)\<lparr>blk_active := False\<rparr>, emptySlot],
        dodgeScore := dodgeScore t + 1, dodgeSpeed := dodgeSpeed t - 2\<rparr>, 0)"
    using dodgeAdvance_retire1 [of "t\<lparr>dodgeFrameTimer := clock t\<rparr>"] assms(1,2) by simp
  show ?thesis
    unfolding dodgeFrame_def a Let_def prod.case
    using assms(3,4)
    by (cases "dodgeScore t = 4")
       (simp_all add: dodgeTargetBlocks_def dodgeTargetDraw_def dodgeFill_stop dodgeFill_spawn
         spawnBlock_zero hw_eval fallingBlock_def emptySlot_def)
qed

lemma dodgeFrame_retire2:
  assumes "dodgeBlocks t = [fallingBlock 9, fallingBlock 9]" "37 < dodgeSpeed t" "rng t = (\<lambda>_. 0)"
    "5 \<le> dodgeScore t"
  shows "dodgeFrame t =
     t\<lparr>dodgeFrameTimer := clock t, rng := (\<lambda>_. 0),
       dodgeBlocks := [fallingBlock 0, fallingBlock 0],
       dodgeScore := dodgeScore t + 2, dodgeSpeed := dodgeSpeed t - 4\<rparr>"
proof -
  have a: "dodgeAdvance (t\<lparr>dodgeFrameTimer := clock t\<rparr>) =
     (t\<lparr>dodgeFrameTimer := clock t,
        dodgeBlocks := [(fallingBlock 10)\<lparr>blk_active := False\<rparr>, (fallingBlock 10)\<lparr>blk_active := False\<rparr>],
        dodgeScore := dodgeScore t + 2, dodgeSpeed := dodgeSpeed t - 4\<rparr>, 0)"
    using dodgeAdvance_retire2 [of "t\<lparr>dodgeFrameTimer := clock t\<rparr>"] assms(1,2) by simp
  show ?thesis
    unfolding dodgeFrame_def a Let_def prod.case
    using assms(3,4)
    by (simp add: dodgeTargetBlocks_def dodgeTargetDraw_def dodgeFill_stop dodgeFill_spawn
         spawnBlock_zero hw_eval fallingBlock_def emptySlot_def)
qed

lemma runDodgeGame_frame:
  assumes "\<not> dodgeTimedOut t" "\<not> dodgeMoveLeft t" "\<not> dodgeMoveRight t" "dodgeFrameDue t"
    "\<not> dodgeCollides (dodgeFrame t)"
  shows "runDodgeGame t = dodgeFrame t"
  using assms by (simp add: runDodgeGame_def dodgeStep_def dodgeMovePlayer_def Let_def)

lemma loop_hold:
  assumes "currentMode s = DODGE_GAME" "\<not> btnActive s" "lastPins s = holdGame2"
  shows "loop (dodgeHoldIn (Suc n)) s = runDodgeGame (dodgeHeld n s)"
  using assms
  by (simp add: loop_def handleButton_def handleIRInput_def irDispatch_def edges_def anyPin_def
      dodgeHoldIn_def tickIn_def holdGame2_def noPins_def Let_def dodgeHeld_def)

lemma elapsed_400: "uint ((of_nat (600 + 400 * n) :: 32 word) - of_nat (200 + 400 * n)) = 400"
proof -
  have "(of_nat (600 + 400 * n) :: 32 word) = of_nat (200 + 400 * n) + 400"
    by simp
  then show ?thesis by simp
qed

lemma dodgeHeld_facts:
  assumes "dodgeInv n two y sc sp s" "sp < 400"
  shows "\<not> dodgeTimedOut (dodgeHeld n s)" "\<not> dodgeMoveLeft (dodgeHeld n s)" "\<not> dodgeMoveRight (dodgeHeld n s)"
    "dodgeFrameDue (dodgeHeld n s)" "rng (dodgeHeld n s) = (\<lambda>_. 0)"
    "dodgeBlocks (dodgeHeld n s) = [fallingBlock y, if two then fallingBlock y else emptySlot]"
    "dodgeScore (dodgeHeld n s) = sc" "dodgeSpeed (dodgeHeld n s) = sp"
    "loop (dodgeHoldIn (Suc n)) s = runDodgeGame (dodgeHeld n s)"
proof -
  show "loop (dodgeHoldIn (Suc n)) s = runDodgeGame (dodgeHeld n s)"
    using assms(1) by (intro loop_hold) (simp_all add: dodgeInv_def)
  show "\<not> dodgeTimedOut (dodgeHeld n s)"
    by (simp add: dodgeTimedOut_def since_def dodgeHeld_def)
  show "dodgeFrameDue (dodgeHeld n s)"
    using assms by (simp add: dodgeFrameDue_def since_def dodgeHeld_def dodgeInv_def elapsed_400)
qed (use assms in \<open>simp_all add: dodgeHeld_def dodgeInv_def\<close>)

lemma no_hit:
  assumes "dodgePlayerX t = 7" "dodgeBlocks t = [fallingBlock y, b]" "b = fallingBlock y \<or> b = emptySlot"
  shows "\<not> dodgeCollides t"
  using assms
  by (auto simp: dodgeCollides_def dodgeBlockCollides_def blockHitsPlayer_def upt_2 Let_def
      fallingBlock_def emptySlot_def)

lemma inv_frame:
  assumes "dodgeInv n two y sc sp s" "sp < 400"
    and fr: "dodgeFrame (dodgeHeld n s) =
       (dodgeHeld n s)\<lparr>dodgeFrameTimer := clock (dodgeHeld n s), rng := (\<lambda>_. 0),
         dodgeBlocks := [fallingBlock y', if two' then fallingBlock y' else emptySlot],
         dodgeScore := sc', dodgeSpeed := sp'\<rparr>"
  shows "dodgeInv (Suc n) two' y' sc' sp' (loop (dodgeHoldIn (Suc n)) s)"
proof -
  note f = dodgeHeld_facts [OF assms(1,2)]
  have "\<not> dodgeCollides (dodgeFrame (dodgeHeld n s))"
    unfolding fr using assms(1)
    by (intro no_hit [where y = y' and b = "if two' then fallingBlock y' else emptySlot"])
       (simp_all add: dodgeHeld_def dodgeInv_def)
  then have run: "runDodgeGame (dodgeHeld n s) = dodgeFrame (dodgeHeld n s)"
    using f(1-4) by (intro runDodgeGame_frame)
  show ?thesis
    unfolding f(9) run fr using assms(1)
    by (simp add: dodgeInv_def dodgeHeld_def)
qed

lemma same_score_speed:
  assumes "dodgeScore u = sc" "dodgeSpeed u = sp"
  shows "u\<lparr>dodgeScore := sc, dodgeSpeed := sp\<rparr> = u"
  using assms by (cases u) simp

lemma inv_fall:
  assumes "dodgeInv n two y sc sp s" "y < 9" "sp < 400" "\<not> two \<longrightarrow> sc < 5"
  shows "dodgeInv (Suc n) two (y + 1) sc sp (loop (dodgeHoldIn (Suc n)) s)"
proof -
  note f = dodgeHeld_facts [OF assms(1,3)]
  have "dodgeFrame (dodgeHeld n s) =
     (dodgeHeld n s)\<lparr>dodgeFrameTimer := clock (dodgeHeld n s), rng := (\<lambda>_. 0),
       dodgeBlocks := [fallingBlock (y + 1), if two then fallingBlock (y + 1) else emptySlot]\<rparr>"
    using assms(2,4) f(5,6,7) by (intro dodgeFrame_fall) simp_all
  also have "\<dots> = (dodgeHeld n s)\<lparr>dodgeFrameTimer := clock (dodgeHeld n s), rng := (\<lambda>_. 0),
       dodgeBlocks := [fallingBlock (y + 1), if two then fallingBlock (y + 1) else emptySlot],
       dodgeScore := sc, dodgeSpeed := sp\<rparr>"
    using f(7,8) by (intro same_score_speed [symmetric]) simp_all
  finally show ?thesis
    by (rule inv_frame [OF assms(1,3)])
qed

lemma inv_retire1:
  assumes "dodgeInv n False 9 sc sp s" "35 < sp" "sp < 400" "sc < 5"
  shows "dodgeInv (Suc n) (sc = 4) 0 (sc + 1) (sp - 2) (loop (dodgeHoldIn (Suc n)) s)"
proof -
  note f = dodgeHeld_facts [OF assms(1,3)]
  have "dodgeFrame (dodgeHeld n s) =
     (dodgeHeld n s)\<lparr>dodgeFrameTimer := clock (dodgeHeld n s), rng := (\<lambda>_. 0),
       dodgeBlocks := [fallingBlock 0, if dodgeScore (dodgeHeld n s) = 4 then fallingBlock 0 else emptySlot],
       dodgeScore := dodgeScore (dodgeHeld n s) + 1, dodgeSpeed := dodgeSpeed (dodgeHeld n s) - 2\<rparr>"
    using assms(2,4) f(5,6,7,8) by (intro dodgeFrame_retire1) simp_all
  then have "dodgeFrame (dodgeHeld n s) =
     (dodgeHeld n s)\<lparr>dodgeFrameTimer := clock (dodgeHeld n s), rng := (\<lambda>_. 0),
       dodgeBlocks := [fallingBlock 0, if sc = 4 then fallingBlock 0 else emptySlot],
       dodgeScore := sc + 1, dodgeSpeed := sp - 2\<rparr>"
    unfolding f(7,8) .
  then show ?thesis
    by (rule inv_frame [OF assms(1,3)])
qed

lemma inv_retire2:
  assumes "dodgeInv n True 9 sc sp s" "37 < sp" "sp < 400" "5 \<le> sc"
  shows "dodgeInv (Suc n) True 0 (sc + 2) (sp - 4) (loop (dodgeHoldIn (Suc n)) s)"
proof -
  note f = dodgeHeld_facts [OF assms(1,3)]
  have "dodgeFrame (dodgeHeld n s) =
     (dodgeHeld n s)\<lparr>dodgeFrameTimer := clock (dodgeHeld n s), rng := (\<lambda>_. 0),
       dodgeBlocks := [fallingBlock 0, fallingBlock 0],
       dodgeScore := dodgeScore (dodgeHeld n s) + 2, dodgeSpeed := dodgeSpeed (dodgeHeld n s) - 4\<rparr>"
    using assms(2,4) f(5,6,7,8) by (intro dodgeFrame_retire2) simp_all
  then have "dodgeFrame (dodgeHeld n s) =
     (dodgeHeld n s)\<lparr>dodgeFrameTimer := clock (dodgeHeld n s), rng := (\<lambda>_. 0),
       dodgeBlocks := [fallingBlock 0, if True then fallingBlock 0 else emptySlot],
       dodgeScore := sc + 2, dodgeSpeed := sp - 4\<rparr>"
    unfolding f(7,8) by simp
  then show ?thesis
    by (rule inv_frame [OF assms(1,3)])
qed

lemma loops_snoc: "loops (xs @ [x]) s = loop x (loops xs s)"
  by (induction xs arbitrary: s) simp_all

lemma dodgeRun_Suc: "dodgeRun (Suc k) = loop (dodgeHoldIn k) (dodgeRun k)"
  by (simp add: dodgeRun_def loops_snoc)

lemma replicate_2: "replicate 2 x = [x, x]"
  by (simp add: numeral_2_eq_2)

lemma dodgeRun_1: "dodgeInv 0 False 1 0 160 (dodgeRun (Suc 0))"
  by (simp add: replicate_2 dodgeRun_def dodgeInv_def dodgeHoldIn_def holdGame2_def fallingBlock_def emptySlot_def
      ctrl_eval dodge_eval Let_def)

lemma next_tick_fall:
  assumes "m mod 10 < (9::nat)"
  shows "Suc m div 10 = m div 10" "Suc m mod 10 = Suc (m mod 10)" "m \<noteq> 49"
  using assms by presburger+

lemma next_tick_retire:
  assumes "m mod 10 = (9::nat)"
  shows "Suc m div 10 = Suc (m div 10)" "Suc m mod 10 = 0"
  using assms by presburger+

lemma dodge_run_inv:
  "k < 340 \<Longrightarrow>
     dodgeInv k (50 \<le> Suc k) (int (Suc k mod 10)) (dodgeScoreAt (Suc k)) (dodgeSpeedAt (Suc k))
       (dodgeRun (Suc k))"
proof (induction k)
  case 0
  show ?case
    using dodgeRun_1 by (simp add: dodgeScoreAt_def dodgeSpeedAt_def)
next
  case (Suc k)
  define m where "m = Suc k"
  have m: "1 \<le> m" "m \<le> 339"
    using Suc.prems by (simp_all add: m_def)
  have ih: "dodgeInv k (50 \<le> m) (int (m mod 10)) (dodgeScoreAt m) (dodgeSpeedAt m) (dodgeRun m)"
    using Suc.IH Suc.prems by (simp add: m_def)
  have q: "m div 10 \<le> 33" using m by presburger
  have sp: "dodgeSpeedAt m < 400" by (simp add: dodgeSpeedAt_def)
  have goal: "dodgeInv (Suc k) (50 \<le> Suc m) (int (Suc m mod 10)) (dodgeScoreAt (Suc m)) (dodgeSpeedAt (Suc m))
       (loop (dodgeHoldIn (Suc k)) (dodgeRun m))"
  proof (cases "m mod 10 < 9")
    case True
    note t = next_tick_fall [OF True]
    have low: "\<not> 50 \<le> m \<longrightarrow> dodgeScoreAt m < 5"
      by (auto simp: dodgeScoreAt_def; presburger)
    have eq: "(50 \<le> Suc m) = (50 \<le> m)" "int (Suc m mod 10) = int (m mod 10) + 1"
        "dodgeScoreAt (Suc m) = dodgeScoreAt m" "dodgeSpeedAt (Suc m) = dodgeSpeedAt m"
      using t by (auto simp: dodgeScoreAt_def dodgeSpeedAt_def)
    show ?thesis
      unfolding eq using True by (intro inv_fall [OF ih _ sp low]) simp
  next
    case False
    then have r: "m mod 10 = 9" by presburger
    note t = next_tick_retire [OF r]
    show ?thesis
    proof (cases "m < 50")
      case True
      then have q4: "m div 10 \<le> 4" by presburger
      have ih1: "dodgeInv k False 9 (int (m div 10)) (160 - 2 * int (m div 10)) (dodgeRun m)"
        using ih True r by (simp add: dodgeScoreAt_def dodgeSpeedAt_def)
      have e1: "(50 \<le> Suc m) = (int (m div 10) = 4)"
        using True r by presburger
      have e2: "int (Suc m mod 10) = 0"
        using t by simp
      have e3: "dodgeScoreAt (Suc m) = int (m div 10) + 1"
      proof (cases "Suc m < 50")
        case True
        then show ?thesis using t by (simp add: dodgeScoreAt_def)
      next
        case False
        then have "m div 10 = 4" using \<open>m < 50\<close> by presburger
        then show ?thesis using t False by (simp add: dodgeScoreAt_def)
      qed
      have e4: "dodgeSpeedAt (Suc m) = 160 - 2 * int (m div 10) - 2"
      proof (cases "Suc m < 50")
        case True
        then show ?thesis using t by (simp add: dodgeSpeedAt_def)
      next
        case False
        then have "m div 10 = 4" using \<open>m < 50\<close> by presburger
        then show ?thesis using t False by (simp add: dodgeSpeedAt_def)
      qed
      note eq = e1 e2 e3 e4
      show ?thesis
        unfolding eq using q4 by (intro inv_retire1 [OF ih1]) simp_all
    next
      case False
      then have q5: "5 \<le> m div 10" by presburger
      have ih2: "dodgeInv k True 9 (2 * int (m div 10) - 5) (170 - 4 * int (m div 10)) (dodgeRun m)"
        using ih False r by (simp add: dodgeScoreAt_def dodgeSpeedAt_def)
      have eq: "(50 \<le> Suc m) = True" "int (Suc m mod 10) = 0"
          "dodgeScoreAt (Suc m) = 2 * int (m div 10) - 5 + 2"
          "dodgeSpeedAt (Suc m) = 170 - 4 * int (m div 10) - 4"
        using t False by (auto simp: dodgeScoreAt_def dodgeSpeedAt_def)
      show ?thesis
        unfolding eq using q q5 by (intro inv_retire2 [OF ih2]) simp_all
    qed
  qed
  show ?case
    using goal unfolding m_def [symmetric] dodgeRun_Suc [of m] by (simp add: m_def)
qed

text \<open>
  C1, evaluated at a failing input. Dodge is launched from the start and Game 2 is held,
  which keeps the game from timing out and moves nothing; every raw value of the generator
  is 0, so every block falls in column 0 and the player in column 7 is never hit. After 340
  passes of the loop, in one life (no death since the start), 63 blocks have left the grid
  and the frame interval is 34 ms, below \<open>DODGE_MIN_SPEED\<close> = 35: the guard
  \<open>dodgeSpeed > DODGE_MIN_SPEED\<close> still holds at 36 and the step is 2.
\<close>

theorem dodge_speed_below_min:
  "dodgeSpeed (dodgeRun 340) = 34
   \<and> dodgeScore (dodgeRun 340) = 63
   \<and> gameOvers (dodgeRun 340) = 0
   \<and> currentMode (dodgeRun 340) = DODGE_GAME
   \<and> dodgeSpeed (dodgeRun 340) < DODGE_MIN_SPEED"
proof -
  have "dodgeInv 339 (50 \<le> Suc 339) (int (Suc 339 mod 10)) (dodgeScoreAt (Suc 339)) (dodgeSpeedAt (Suc 339))
       (dodgeRun (Suc 339))"
    by (rule dodge_run_inv) simp
  then show ?thesis
    by (simp add: dodgeInv_def dodgeScoreAt_def dodgeSpeedAt_def)
qed

end
